theory Spec2Isabelle
  imports Complex_Main "HOL-Library.Word"
begin

section \<open>Values of the program\<close>

text \<open>
  A Python \<open>str\<close> is a sequence of Unicode code points: \<open>len\<close>, slicing and \<open>in\<close>
  count code points, so a string is a list of code point numbers. \<open>bytes\<close> is a list of
  octets. Dictionary keys are the ASCII literals of the source and are kept as HOL strings.
\<close>

type_synonym pystr = "nat list"
type_synonym bytes = "8 word list"

definition ascii :: "string \<Rightarrow> pystr" where
  "ascii s = map of_char s"

text \<open>
  A history entry is a Python \<open>dict\<close> whose values are strings: an association list in
  insertion order, read through \<open>map_of\<close>. Field values that are not strings (which only
  a hand-edited history file could contain) are outside the model.
\<close>

type_synonym entry = "(string \<times> pystr) list"

definition get :: "entry \<Rightarrow> string \<Rightarrow> pystr option" where
  \<comment> \<open>\<open>entry.get(key)\<close>\<close>
  "get e k = map_of e k"

definition get_or :: "entry \<Rightarrow> string \<Rightarrow> pystr \<Rightarrow> pystr" where
  \<comment> \<open>\<open>entry.get(key, default)\<close>\<close>
  "get_or e k d = (case map_of e k of None \<Rightarrow> d | Some v \<Rightarrow> v)"

definition dict_eq :: "entry \<Rightarrow> entry \<Rightarrow> bool" where
  \<comment> \<open>\<open>==\<close> on dicts: the same keys with the same values, in any order\<close>
  "dict_eq a b = list_all (\<lambda>k. map_of a k = map_of b k) (map fst a @ map fst b)"

definition truthy :: "'a list option \<Rightarrow> bool" where
  \<comment> \<open>the truth value of a \<open>str\<close> or \<open>bytes\<close> that may be \<open>None\<close>\<close>
  "truthy v = (case v of None \<Rightarrow> False | Some xs \<Rightarrow> xs \<noteq> [])"

subsection \<open>Strings\<close>

definition isspace :: "nat \<Rightarrow> bool" where
  \<comment> \<open>the code points that \<open>str.strip()\<close> removes\<close>
  "isspace c = ((9 \<le> c \<and> c \<le> 13) \<or> (28 \<le> c \<and> c \<le> 32) \<or> c = 133 \<or> c = 160 \<or> c = 5760
     \<or> (8192 \<le> c \<and> c \<le> 8202) \<or> c = 8232 \<or> c = 8233 \<or> c = 8239 \<or> c = 8287 \<or> c = 12288)"

definition strip :: "pystr \<Rightarrow> pystr" where
  "strip s = rev (dropWhile isspace (rev (dropWhile isspace s)))"

fun starts_with :: "'a list \<Rightarrow> 'a list \<Rightarrow> bool" where
  "starts_with s [] = True"
| "starts_with [] (p # ps) = False"
| "starts_with (c # cs) (p # ps) = (c = p \<and> starts_with cs ps)"

fun contains :: "'a list \<Rightarrow> 'a list \<Rightarrow> bool" where
  \<comment> \<open>\<open>contains s sub\<close> is Python's \<open>sub in s\<close> on strings\<close>
  "contains [] sub = (sub = [])"
| "contains (c # cs) sub = (starts_with (c # cs) sub \<or> contains cs sub)"

definition image_placeholder :: pystr where
  \<comment> \<open>the preview of an image entry: an opening bracket, the Russian word for image
      with a capital initial, a closing bracket\<close>
  "image_placeholder =
     [91, 1048, 1079, 1086, 1073, 1088, 1072, 1078, 1077, 1085, 1080, 1077, 93]"

definition image_keyword :: pystr where
  \<comment> \<open>the same Russian word in lower case, as the filter looks for it\<close>
  "image_keyword = [1080, 1079, 1086, 1073, 1088, 1072, 1078, 1077, 1085, 1080, 1077]"

subsection \<open>The deque that holds the history\<close>

definition deque_append :: "nat \<Rightarrow> 'a list \<Rightarrow> 'a \<Rightarrow> 'a list" where
  \<comment> \<open>\<open>deque(maxlen=n).append(x)\<close>: add on the right, then drop the leftmost item when
      the deque is longer than \<open>n\<close>\<close>
  "deque_append maxlen d x = (if maxlen < length (d @ [x]) then tl (d @ [x]) else d @ [x])"

definition deque_of :: "nat \<Rightarrow> 'a list \<Rightarrow> 'a list" where
  \<comment> \<open>\<open>deque(xs, maxlen=n)\<close>: the items are appended one by one\<close>
  "deque_of maxlen xs = foldl (deque_append maxlen) [] xs"

fun remove_first :: "('a \<Rightarrow> bool) \<Rightarrow> 'a list \<Rightarrow> 'a list option" where
  \<comment> \<open>\<open>deque.remove(v)\<close> deletes the first item equal to \<open>v\<close>; \<open>None\<close> is ValueError\<close>
  "remove_first P [] = None"
| "remove_first P (x # xs) =
     (if P x then Some xs else map_option ((#) x) (remove_first P xs))"

section \<open>The environment and the state\<close>

text \<open>
  Library and operating system behaviour the program relies on is a parameter: the digest,
  case folding, and whether each file operation or clipboard call succeeds.
\<close>

record env =
  pil_available :: bool
  md5_hexdigest :: "bytes \<Rightarrow> pystr"
  str_lower :: "pystr \<Rightarrow> pystr"
  images_dir :: pystr
  write_ok :: "pystr \<Rightarrow> bool"
  thumbnail :: "bytes \<Rightarrow> bytes option"
  remove_ok :: "pystr \<Rightarrow> bool"
  config_write_ok :: bool
  image_copy_ok :: bool
  text_copy_ok :: bool

text \<open>
  The history file after \<open>json.load\<close>: absent, or content on which reading or parsing
  raises, or a document whose \<open>history\<close> and \<open>last_update\<close> keys may be missing.
\<close>

record document =
  doc_history :: "entry list option"
  doc_last_update :: "pystr option"

datatype config = NoFile | Unreadable | Document document

datatype clip = ClipText pystr | ClipImage bytes

text \<open>
  The fields of \<open>ClipboardHistory\<close> together with the files and the clipboard it acts on.
  An attribute that the source tests with \<open>hasattr\<close> or reads with \<open>getattr\<close> is an
  option: \<open>None\<close> while it has not been assigned.
\<close>

record state =
  max_history :: nat
  history :: "entry list"
  current_clipboard :: pystr
  current_clipboard_image_hash :: "pystr option"
  config_file :: config
  files :: "pystr \<rightharpoonup> bytes"
  history_window :: bool
  window_just_opened :: bool
  window_open_time :: real
  ui_created :: bool
  current_filter :: "pystr option"
  filtered_history :: "entry list option"
  history_items :: "entry list option"
  selected_index :: "int option option"
  os_clipboard :: clip
  paste_threads :: nat

datatype error = TypeError | AttributeError | ClipboardError

datatype outcome = Returns state | Raises error state

record image_info =
  image_path :: pystr
  preview_path :: pystr
  image_hash :: pystr

section \<open>Persistence\<close>

definition default_type :: "entry \<Rightarrow> entry" where
  \<comment> \<open>\<open>if 'type' not in entry: entry['type'] = 'text'\<close>\<close>
  "default_type e =
     (case map_of e ''type'' of None \<Rightarrow> e @ [(''type'', ascii ''text'')] | Some t \<Rightarrow> e)"

definition load_history :: "state \<Rightarrow> state" where
  "load_history s =
     (case config_file s of
        NoFile \<Rightarrow> s
      | Unreadable \<Rightarrow> s
      | Document d \<Rightarrow>
          s\<lparr>history := deque_of (max_history s)
              (map default_type (case doc_history d of None \<Rightarrow> [] | Some h \<Rightarrow> h))\<rparr>)"

definition save_history :: "env \<Rightarrow> pystr \<Rightarrow> state \<Rightarrow> state" where
  \<comment> \<open>a failed write is caught and leaves the state as it is\<close>
  "save_history ev now s =
     (if config_write_ok ev
      then s\<lparr>config_file :=
             Document \<lparr>doc_history = Some (history s), doc_last_update = Some now\<rparr>\<rparr>
      else s)"

section \<open>Adding to the history\<close>

definition path_join :: "pystr \<Rightarrow> pystr \<Rightarrow> pystr" where
  "path_join d f = d @ ascii ''/'' @ f"

definition last_is_image :: "env \<Rightarrow> state \<Rightarrow> bytes \<Rightarrow> bool" where
  \<comment> \<open>the duplicate check of \<open>save_image_from_clipboard\<close>\<close>
  "last_is_image ev s data =
     (history s \<noteq> []
      \<and> get (last (history s)) ''type'' = Some (ascii ''image'')
      \<and> get (last (history s)) ''image_hash'' = Some (md5_hexdigest ev data))"

definition last_is_text :: "state \<Rightarrow> pystr \<Rightarrow> bool" where
  \<comment> \<open>the duplicate check of \<open>add_to_history\<close>\<close>
  "last_is_text s text =
     (history s \<noteq> []
      \<and> get (last (history s)) ''type'' = Some (ascii ''text'')
      \<and> get (last (history s)) ''text'' = Some text)"

definition blob_path :: "env \<Rightarrow> bytes \<Rightarrow> pystr" where
  "blob_path ev data = path_join (images_dir ev) (md5_hexdigest ev data @ ascii ''.png'')"

definition thumb_path :: "env \<Rightarrow> bytes \<Rightarrow> pystr" where
  "thumb_path ev data =
     path_join (images_dir ev) (md5_hexdigest ev data @ ascii ''_preview.png'')"

definition save_image_from_clipboard ::
    "env \<Rightarrow> state \<Rightarrow> bytes option \<Rightarrow> image_info option \<times> state" where
  \<comment> \<open>\<open>None\<close> is returned for a duplicate and for every failure alike; a failed write
      of the image is caught by the outer handler, a failed thumbnail by the inner one\<close>
  "save_image_from_clipboard ev s image_data =
     (case image_data of
        None \<Rightarrow> (None, s)
      | Some data \<Rightarrow>
          if \<not> pil_available ev \<or> data = [] then (None, s)
          else if last_is_image ev s data then (None, s)
          else if \<not> write_ok ev (blob_path ev data) then (None, s)
          else
            (case thumbnail ev data of
               None \<Rightarrow>
                 (Some \<lparr>image_path = blob_path ev data,
                        preview_path = blob_path ev data,
                        image_hash = md5_hexdigest ev data\<rparr>,
                  s\<lparr>files := (files s)(blob_path ev data \<mapsto> data)\<rparr>)
             | Some pv \<Rightarrow>
                 (Some \<lparr>image_path = blob_path ev data,
                        preview_path = thumb_path ev data,
                        image_hash = md5_hexdigest ev data\<rparr>,
                  s\<lparr>files := (files s)(blob_path ev data \<mapsto> data,
                                        thumb_path ev data \<mapsto> pv)\<rparr>)))"

definition image_entry :: "image_info \<Rightarrow> pystr \<Rightarrow> entry" where
  "image_entry info now =
     [(''type'', ascii ''image''),
      (''image_path'', image_path info),
      (''preview_path'', preview_path info),
      (''image_hash'', image_hash info),
      (''timestamp'', now),
      (''preview'', image_placeholder)]"

definition text_entry :: "pystr \<Rightarrow> pystr \<Rightarrow> entry" where
  "text_entry text now =
     [(''type'', ascii ''text''),
      (''text'', text),
      (''timestamp'', now),
      (''preview'', take 100 text @ (if 100 < length text then ascii ''...'' else []))]"

definition add_to_history ::
    "env \<Rightarrow> pystr \<Rightarrow> pystr \<Rightarrow> state \<Rightarrow> pystr option \<Rightarrow> bytes option \<Rightarrow> state" where
  \<comment> \<open>\<open>now\<close> is the clock reading stored in the entry, \<open>now_save\<close> the one stored by
      \<open>save_history\<close>\<close>
  "add_to_history ev now now_save s text image_data =
     (if truthy image_data then
        (case save_image_from_clipboard ev s image_data of
           (Some info, s1) \<Rightarrow>
             save_history ev now_save
               (s1\<lparr>history := deque_append (max_history s1) (history s1) (image_entry info now)\<rparr>)
         | (None, s1) \<Rightarrow> s1)
      else
        (case text of
           None \<Rightarrow> s
         | Some t \<Rightarrow>
             if t = [] then s
             else if strip t = [] then s
             else if last_is_text s t then s
             else save_history ev now_save
                    (s\<lparr>history := deque_append (max_history s) (history s) (text_entry t now)\<rparr>)))"

definition run_appends ::
    "env \<Rightarrow> state \<Rightarrow> (pystr option \<times> bytes option \<times> pystr \<times> pystr) list \<Rightarrow> state" where
  \<comment> \<open>a sequence of calls of \<open>add_to_history\<close>, each with its arguments and its two
      clock readings\<close>
  "run_appends ev s calls =
     foldl (\<lambda>s' (text, image_data, now, now_save).
              add_to_history ev now now_save s' text image_data) s calls"

section \<open>The retrieval view\<close>

definition entry_matches :: "env \<Rightarrow> pystr \<Rightarrow> entry \<Rightarrow> bool" where
  \<comment> \<open>the condition of the list comprehension in \<open>update_history_list\<close>;
      \<open>filter_lower\<close> is the query already in lower case\<close>
  "entry_matches ev filter_lower h =
     (contains (str_lower ev (get_or h ''text'' [])) filter_lower
      \<or> contains (str_lower ev (get_or h ''preview'' [])) filter_lower
      \<or> (get h ''type'' = Some (ascii ''image'') \<and> contains filter_lower image_keyword))"

definition select_item :: "state \<Rightarrow> int \<Rightarrow> state" where
  \<comment> \<open>highlighting and scrolling are presentation; the cursor is what remains\<close>
  "select_item s index =
     (case history_items s of
        None \<Rightarrow> s
      | Some items \<Rightarrow> if items = [] then s else s\<lparr>selected_index := Some (Some index)\<rparr>)"

definition update_history_list :: "env \<Rightarrow> state \<Rightarrow> pystr \<Rightarrow> state" where
  \<comment> \<open>\<open>history_items\<close> holds the entries shown, newest first\<close>
  "update_history_list ev s filter_text =
     (if \<not> ui_created s then s
      else if rev (if filter_text \<noteq> []
                   then filter (entry_matches ev (str_lower ev filter_text)) (history s)
                   else history s) \<noteq> []
      then select_item
             (s\<lparr>current_filter := Some filter_text,
                filtered_history :=
                  Some (if filter_text \<noteq> []
                        then filter (entry_matches ev (str_lower ev filter_text)) (history s)
                        else history s),
                history_items :=
                  Some (rev (if filter_text \<noteq> []
                             then filter (entry_matches ev (str_lower ev filter_text)) (history s)
                             else history s)),
                selected_index := Some (Some 0)\<rparr>) 0
      else s\<lparr>current_filter := Some filter_text,
              filtered_history := Some [],
              history_items := Some [],
              selected_index := Some None\<rparr>)"

definition filter_history :: "env \<Rightarrow> state \<Rightarrow> pystr \<Rightarrow> state" where
  "filter_history ev s filter_text = update_history_list ev s filter_text"

definition navigate_list :: "state \<Rightarrow> int \<Rightarrow> state" where
  "navigate_list s direction =
     (case history_items s of
        None \<Rightarrow> s
      | Some items \<Rightarrow>
          if items = [] then s
          else
            (let current_index = (case selected_index s of Some (Some i) \<Rightarrow> i | _ \<Rightarrow> 0);
                 new_index =
                   (if current_index + direction < 0 then 0
                    else if current_index + direction \<ge> int (length items)
                    then int (length items) - 1
                    else current_index + direction)
             in if new_index \<noteq> current_index then select_item s new_index else s))"

definition create_history_ui :: "env \<Rightarrow> state \<Rightarrow> state" where
  "create_history_ui ev s =
     update_history_list ev
       (s\<lparr>filtered_history := Some (history s), current_filter := Some [],
          ui_created := True\<rparr>) []"

definition show_history_window :: "env \<Rightarrow> state \<Rightarrow> real \<Rightarrow> state" where
  \<comment> \<open>\<open>now\<close> is the reading of \<open>time.time()\<close>, in seconds\<close>
  "show_history_window ev s now =
     (if history_window s
      then (update_history_list ev s
              (case current_filter s of None \<Rightarrow> [] | Some f \<Rightarrow> f))
             \<lparr>window_just_opened := False\<rparr>
      else create_history_ui ev
             (s\<lparr>window_just_opened := True, window_open_time := now,
                history_window := True\<rparr>))"

definition clear_window_flag :: "state \<Rightarrow> state" where
  \<comment> \<open>the body of the thread started when the window opens, run after its delay\<close>
  "clear_window_flag s = s\<lparr>window_just_opened := False\<rparr>"

definition on_window_close :: "state \<Rightarrow> state" where
  "on_window_close s = s\<lparr>history_window := False, window_just_opened := False\<rparr>"

definition close_and_paste :: "state \<Rightarrow> outcome" where
  \<comment> \<open>the end of a commit: the window is destroyed and the paste thread started;
      destroying a window that is \<open>None\<close> raises\<close>
  "close_and_paste s =
     (if history_window s
      then Returns (s\<lparr>history_window := False, paste_threads := Suc (paste_threads s)\<rparr>)
      else Raises AttributeError s)"

definition insert_selected_by_index :: "env \<Rightarrow> state \<Rightarrow> real \<Rightarrow> int option \<Rightarrow> outcome" where
  \<comment> \<open>\<open>index\<close> is \<open>None\<close> when \<open>insert_selected\<close> passes on a cursor that is \<open>None\<close>\<close>
  "insert_selected_by_index ev s now index =
     (if window_just_opened s \<or> now - window_open_time s < 1 / 2 then Returns s
      else
        (case index of
           None \<Rightarrow> Raises TypeError s
         | Some i \<Rightarrow>
             (let filtered = (case filtered_history s of None \<Rightarrow> history s | Some f \<Rightarrow> f)
              in if 0 \<le> i \<and> i < int (length filtered) then
                   (let entry = filtered ! (length filtered - 1 - nat i)
                    in if get entry ''type'' = Some (ascii ''image'') then
                         (case get entry ''image_path'' of
                            None \<Rightarrow> Returns s
                          | Some p \<Rightarrow>
                              if p = [] then Returns s
                              else
                                (case files s p of
                                   None \<Rightarrow> Returns s
                                 | Some data \<Rightarrow>
                                     if image_copy_ok ev
                                     then close_and_paste (s\<lparr>os_clipboard := ClipImage data\<rparr>)
                                     else Returns s))
                       else if get_or entry ''text'' [] = [] then Returns s
                       else if \<not> text_copy_ok ev then Raises ClipboardError s
                       else close_and_paste
                              (s\<lparr>os_clipboard := ClipText (get_or entry ''text'' []),
                                 current_clipboard := get_or entry ''text'' []\<rparr>))
                 else Returns s)))"

definition insert_selected :: "env \<Rightarrow> state \<Rightarrow> real \<Rightarrow> outcome" where
  \<comment> \<open>\<open>getattr(self, 'selected_index', 0)\<close>\<close>
  "insert_selected ev s now =
     insert_selected_by_index ev s now
       (case selected_index s of None \<Rightarrow> Some 0 | Some i \<Rightarrow> i)"

section \<open>Deleting\<close>

definition remove_entry_files :: "env \<Rightarrow> state \<Rightarrow> entry \<Rightarrow> state" where
  \<comment> \<open>the two guarded \<open>os.remove\<close> calls for an image entry; a failed removal is
      caught and leaves the file\<close>
  "remove_entry_files ev s entry =
     (let s1 = (if truthy (get entry ''image_path'')
                   \<and> files s (the (get entry ''image_path'')) \<noteq> None
                then (if remove_ok ev (the (get entry ''image_path''))
                      then s\<lparr>files := (files s)(the (get entry ''image_path'') := None)\<rparr>
                      else s)
                else s)
      in if truthy (get entry ''preview_path'')
            \<and> files s1 (the (get entry ''preview_path'')) \<noteq> None
            \<and> get entry ''preview_path'' \<noteq> get entry ''image_path''
         then (if remove_ok ev (the (get entry ''preview_path''))
               then s1\<lparr>files := (files s1)(the (get entry ''preview_path'') := None)\<rparr>
               else s1)
         else s1)"

definition delete_selected :: "env \<Rightarrow> pystr \<Rightarrow> state \<Rightarrow> state" where
  "delete_selected ev now_save s =
     (case selected_index s of
        None \<Rightarrow> s
      | Some None \<Rightarrow> s
      | Some (Some i) \<Rightarrow>
          (let filtered = (case filtered_history s of None \<Rightarrow> history s | Some f \<Rightarrow> f)
           in if 0 \<le> i \<and> i < int (length filtered) then
                (let entry = filtered ! (length filtered - 1 - nat i)
                 in if list_ex (\<lambda>x. dict_eq x entry) (history s) then
                      (let s1 = (if get entry ''type'' = Some (ascii ''image'')
                                 then remove_entry_files ev s entry else s);
                           s2 = s1\<lparr>history :=
                                  (case remove_first (\<lambda>x. dict_eq x entry) (history s1) of
                                     None \<Rightarrow> history s1 | Some h \<Rightarrow> h)\<rparr>;
                           s3 = save_history ev now_save s2
                       in update_history_list ev s3
                            (case current_filter s3 of None \<Rightarrow> [] | Some f \<Rightarrow> f))
                    else s)
              else s))"

definition clear_history :: "env \<Rightarrow> pystr \<Rightarrow> state \<Rightarrow> state" where
  "clear_history ev now_save s =
     update_history_list ev
       (save_history ev now_save
          ((foldl (\<lambda>s' e. if get e ''type'' = Some (ascii ''image'')
                          then remove_entry_files ev s' e else s')
              s (history s))\<lparr>history := []\<rparr>)) []"

section \<open>Start-up\<close>

definition new_state :: "nat \<Rightarrow> config \<Rightarrow> (pystr \<rightharpoonup> bytes) \<Rightarrow> clip \<Rightarrow> state" where
  \<comment> \<open>the assignments of \<open>__init__\<close>, given the history file, the files and the
      clipboard found at start-up\<close>
  "new_state m cfg fs cb =
     \<lparr>max_history = m, history = [], current_clipboard = [],
      current_clipboard_image_hash = None, config_file = cfg, files = fs,
      history_window = False, window_just_opened = False, window_open_time = 0,
      ui_created = False, current_filter = None, filtered_history = None,
      history_items = None, selected_index = None, os_clipboard = cb, paste_threads = 0\<rparr>"

definition init :: "env \<Rightarrow> pystr \<Rightarrow> nat \<Rightarrow> bool \<Rightarrow> config \<Rightarrow> (pystr \<rightharpoonup> bytes) \<Rightarrow> clip \<Rightarrow> state" where
  \<comment> \<open>\<open>ClipboardHistory(max_history, clear_on_startup)\<close>\<close>
  "init ev now_save m clear_on_startup cfg fs cb =
     (if clear_on_startup
      then clear_history ev now_save (load_history (new_state m cfg fs cb))
      else load_history (new_state m cfg fs cb))"

section \<open>Notions the properties are stated with\<close>

definition cursor :: "state \<Rightarrow> int option" where
  \<comment> \<open>the cursor, \<open>None\<close> when it is unset\<close>
  "cursor s = (case selected_index s of None \<Rightarrow> None | Some c \<Rightarrow> c)"

definition view_len :: "state \<Rightarrow> nat" where
  "view_len s = (case history_items s of None \<Rightarrow> 0 | Some items \<Rightarrow> length items)"

definition view_ok :: "state \<Rightarrow> bool" where
  \<comment> \<open>a view state: the cursor indexes into a view that has entries\<close>
  "view_ok s =
     (view_len s = 0
      \<or> (case cursor s of None \<Rightarrow> False | Some i \<Rightarrow> 0 \<le> i \<and> i < int (view_len s)))"

definition remove_at :: "nat \<Rightarrow> 'a list \<Rightarrow> 'a list" where
  \<comment> \<open>removal of the item at one position, which is what removal by identity means
      for a sequence of values\<close>
  "remove_at p xs = take p xs @ drop (Suc p) xs"

definition selected_position :: "state \<Rightarrow> nat" where
  \<comment> \<open>the position in the unfiltered history of the entry under the cursor, when the
      view shows the whole history\<close>
  "selected_position s =
     length (history s) - 1 - nat (case cursor s of None \<Rightarrow> 0 | Some i \<Rightarrow> i)"

definition selected_entry :: "state \<Rightarrow> entry option" where
  \<comment> \<open>the entry under the cursor, as \<open>delete_selected\<close> and \<open>insert_selected\<close>
      look it up: \<open>filtered_history[-(index + 1)]\<close> when the index is in range\<close>
  "selected_entry s =
     (case cursor s of
        None \<Rightarrow> None
      | Some i \<Rightarrow>
          (let filtered = (case filtered_history s of None \<Rightarrow> history s | Some f \<Rightarrow> f)
           in if 0 \<le> i \<and> i < int (length filtered)
              then Some (filtered ! (length filtered - 1 - nat i)) else None))"

definition ci_contains :: "env \<Rightarrow> pystr \<Rightarrow> pystr \<Rightarrow> bool" where
  \<comment> \<open>the query occurs in the string when both are put in lower case\<close>
  "ci_contains ev str query = contains (str_lower ev str) (str_lower ev query)"

subsection \<open>A concrete environment and state for the examples\<close>

definition lower_cp :: "nat \<Rightarrow> nat" where
  \<comment> \<open>lower case of the Latin and the Russian capital letters\<close>
  "lower_cp c =
     (if (65 \<le> c \<and> c \<le> 90) \<or> (1040 \<le> c \<and> c \<le> 1071) then c + 32 else c)"

definition example_env :: env where
  \<comment> \<open>every operation succeeds; the digest is a stand-in that spells the bytes out\<close>
  "example_env =
     \<lparr>pil_available = True, md5_hexdigest = map unat, str_lower = map lower_cp,
      images_dir = ascii ''/img'', write_ok = (\<lambda>p. True),
      thumbnail = (\<lambda>b. Some (take 1 b)), remove_ok = (\<lambda>p. True),
      config_write_ok = True, image_copy_ok = True, text_copy_ok = True\<rparr>"

definition example_state :: "nat \<Rightarrow> entry list \<Rightarrow> state" where
  "example_state m h = (new_state m NoFile Map.empty (ClipText []))\<lparr>history := h\<rparr>"

section \<open>Facts about the deque\<close>

lemma length_deque_append: "length d \<le> m \<Longrightarrow> length (deque_append m d x) \<le> m"
  by (simp add: deque_append_def)

lemma deque_append_last: "0 < m \<Longrightarrow> deque_append m d x \<noteq> [] \<and> last (deque_append m d x) = x"
  by (cases d) (auto simp: deque_append_def)

lemma deque_append_full: "length d = m \<Longrightarrow> deque_append m d x = tl (d @ [x])"
  by (simp add: deque_append_def)

lemma deque_append_room: "length d < m \<Longrightarrow> deque_append m d x = d @ [x]"
  by (simp add: deque_append_def)

lemma deque_of_snoc: "deque_of m (xs @ [x]) = deque_append m (deque_of m xs) x"
  by (simp add: deque_of_def)

lemma tl_drop_snoc: "k < length xs \<Longrightarrow> tl (drop k xs @ [x]) = drop (Suc k) xs @ [x]"
  by (induction xs arbitrary: k) (auto simp: drop_Cons split: nat.splits)

lemma deque_of_drop: "deque_of m xs = drop (length xs - m) xs"
proof (induction xs rule: rev_induct)
  case Nil
  show ?case by (simp add: deque_of_def)
next
  case (snoc x xs)
  show ?case
  proof (cases "m \<le> length xs")
    case True
    note le = True
    show ?thesis
    proof (cases "m = 0")
      case True
      with snoc.IH have "deque_of m xs = []" by simp
      with True show ?thesis by (simp add: deque_of_snoc deque_append_def)
    next
      case False
      with le have k: "length xs - m < length xs" by simp
      have s: "Suc (length xs) - m = Suc (length xs - m)" using le by simp
      have "deque_append m (drop (length xs - m) xs) x = tl (drop (length xs - m) xs @ [x])"
        using le by (simp add: deque_append_def)
      also have "\<dots> = drop (Suc (length xs - m)) xs @ [x]" by (rule tl_drop_snoc [OF k])
      finally have "deque_of m (xs @ [x]) = drop (Suc (length xs - m)) xs @ [x]"
        by (simp add: deque_of_snoc snoc.IH)
      moreover have "drop (length (xs @ [x]) - m) (xs @ [x]) = drop (Suc (length xs - m)) xs @ [x]"
        using k by (simp add: s)
      ultimately show ?thesis by simp
    qed
  next
    case False
    then show ?thesis by (simp add: deque_of_snoc snoc.IH deque_append_def)
  qed
qed

section \<open>Fields each operation leaves alone\<close>

lemma max_history_save [simp]: "max_history (save_history ev now s) = max_history s"
  by (simp add: save_history_def)

lemma history_save [simp]: "history (save_history ev now s) = history s"
  by (simp add: save_history_def)

lemma files_save [simp]: "files (save_history ev now s) = files s"
  by (simp add: save_history_def)

lemma save_image_history:
  "save_image_from_clipboard ev s d = (r, s1) \<Longrightarrow> history s1 = history s \<and> max_history s1 = max_history s"
  by (auto simp: save_image_from_clipboard_def split: option.splits if_splits)

lemma add_max_history [simp]:
  "max_history (add_to_history ev now ns s t d) = max_history s"
  by (auto simp: add_to_history_def split: option.splits prod.splits dest: save_image_history)

lemma add_length:
  "length (history s) \<le> max_history s \<Longrightarrow>
   length (history (add_to_history ev now ns s t d)) \<le> max_history s"
  by (auto simp: add_to_history_def length_deque_append split: option.splits prod.splits
      dest!: save_image_history)

lemma run_appends_bound:
  "length (history s) \<le> max_history s \<Longrightarrow>
   length (history (run_appends ev s calls)) \<le> max_history s
   \<and> max_history (run_appends ev s calls) = max_history s"
proof (induction calls arbitrary: s)
  case Nil
  then show ?case by (simp add: run_appends_def)
next
  case (Cons c calls)
  obtain t d now ns where c: "c = (t, d, now, ns)" by (cases c) auto
  have "run_appends ev s (c # calls) = run_appends ev (add_to_history ev now ns s t d) calls"
    by (simp add: run_appends_def c)
  moreover have "length (history (add_to_history ev now ns s t d))
      \<le> max_history (add_to_history ev now ns s t d)"
    using Cons.prems by (simp add: add_length)
  ultimately show ?case using Cons.IH [of "add_to_history ev now ns s t d"] by simp
qed

lemma select_item_fields [simp]:
  "history (select_item s i) = history s" "max_history (select_item s i) = max_history s"
  "files (select_item s i) = files s" "config_file (select_item s i) = config_file s"
  by (simp_all add: select_item_def split: option.splits)

lemma update_history_list_fields [simp]:
  "history (update_history_list ev s q) = history s"
  "max_history (update_history_list ev s q) = max_history s"
  "files (update_history_list ev s q) = files s"
  "config_file (update_history_list ev s q) = config_file s"
  by (simp_all add: update_history_list_def)

lemma remove_entry_files_fields [simp]:
  "history (remove_entry_files ev s e) = history s"
  "max_history (remove_entry_files ev s e) = max_history s"
  "config_file (remove_entry_files ev s e) = config_file s"
  by (simp_all add: remove_entry_files_def Let_def)

lemma clear_history_history [simp]:
  "history (clear_history ev now s) = []" 
  by (simp add: clear_history_def)

lemma fold_remove_max:
  "max_history (foldl (\<lambda>s' e. if get e ''type'' = Some (ascii ''image'')
                          then remove_entry_files ev s' e else s') s es) = max_history s"
  by (induction es arbitrary: s) simp_all

lemma clear_history_max [simp]:
  "max_history (clear_history ev now s) = max_history s"
  by (simp add: clear_history_def fold_remove_max)

lemma load_history_max [simp]: "max_history (load_history s) = max_history s"
  by (simp add: load_history_def split: config.splits)

lemma load_history_document:
  "config_file s = Document d \<Longrightarrow>
   history (load_history s) =
     drop (length (case doc_history d of None \<Rightarrow> [] | Some h \<Rightarrow> h) - max_history s)
       (map default_type (case doc_history d of None \<Rightarrow> [] | Some h \<Rightarrow> h))"
  by (simp add: load_history_def deque_of_drop)

lemma load_history_length:
  "length (history s) \<le> max_history s \<Longrightarrow> length (history (load_history s)) \<le> max_history s"
  by (cases "config_file s") (simp_all add: load_history_def deque_of_drop)

lemma init_length: "length (history (init ev now m c cfg fs cb)) \<le> m
    \<and> max_history (init ev now m c cfg fs cb) = m"
proof -
  have "length (history (new_state m cfg fs cb)) \<le> max_history (new_state m cfg fs cb)"
    by (simp add: new_state_def)
  then have "length (history (load_history (new_state m cfg fs cb))) \<le> m"
    using load_history_length [of "new_state m cfg fs cb"] by (simp add: new_state_def)
  moreover have "max_history (new_state m cfg fs cb) = m" by (simp add: new_state_def)
  ultimately show ?thesis by (simp add: init_def)
qed

section \<open>Loading keeps the capacity\<close>

text \<open>
  C10: when the history file holds more records than \<open>max_history\<close>, loading keeps the
  last \<open>max_history\<close> of them (each with its \<open>type\<close> defaulted) and drops the oldest;
  whatever the file holds, the history is within the capacity after loading and after
  start-up.
\<close>

theorem load_history_keeps_newest:
  "(config_file s = Document d \<and> doc_history d = Some hs \<longrightarrow>
      history (load_history s) = drop (length hs - max_history s) (map default_type hs)
      \<and> length (history (load_history s)) = min (length hs) (max_history s))
   \<and> (length (history s) \<le> max_history s \<longrightarrow>
        length (history (load_history s)) \<le> max_history s)
   \<and> length (history (init ev now m clear cfg fs cb)) \<le> m"
proof (intro conjI impI)
  assume a: "config_file s = Document d \<and> doc_history d = Some hs"
  then show "history (load_history s) = drop (length hs - max_history s) (map default_type hs)"
    using load_history_document [of s d] by simp
  then show "length (history (load_history s)) = min (length hs) (max_history s)"
    by simp
next
  assume "length (history s) \<le> max_history s"
  then show "length (history (load_history s)) \<le> max_history s" by (rule load_history_length)
next
  show "length (history (init ev now m clear cfg fs cb)) \<le> m" by (simp add: init_length)
qed

theorem load_history_keeps_newest_witness:
  "history (load_history (new_state 2
      (Document \<lparr>doc_history = Some [[(''text'', ascii ''A'')],
                                     text_entry (ascii ''B'') (ascii ''t2''),
                                     text_entry (ascii ''C'') (ascii ''t3'')],
                 doc_last_update = None\<rparr>) Map.empty (ClipText [])))
   = [text_entry (ascii ''B'') (ascii ''t2''), text_entry (ascii ''C'') (ascii ''t3'')]"
  using load_history_keeps_newest [of
      "new_state 2
      (Document \<lparr>doc_history = Some [[(''text'', ascii ''A'')],
                                     text_entry (ascii ''B'') (ascii ''t2''),
                                     text_entry (ascii ''C'') (ascii ''t3'')],
                 doc_last_update = None\<rparr>) Map.empty (ClipText [])"
      "\<lparr>doc_history = Some [[(''text'', ascii ''A'')],
                                     text_entry (ascii ''B'') (ascii ''t2''),
                                     text_entry (ascii ''C'') (ascii ''t3'')],
                 doc_last_update = None\<rparr>"
      "[[(''text'', ascii ''A'')],
                                     text_entry (ascii ''B'') (ascii ''t2''),
                                     text_entry (ascii ''C'') (ascii ''t3'')]"]
  by (simp add: new_state_def default_type_def text_entry_def)

section \<open>The cases of adding to the history\<close>

lemma strip_Nil [simp]: "strip [] = []"
  by (simp add: strip_def)

lemma add_text_accepted:
  "strip t \<noteq> [] \<Longrightarrow> \<not> truthy d \<Longrightarrow> \<not> last_is_text s t \<Longrightarrow>
   add_to_history ev now ns s (Some t) d =
     save_history ev ns
       (s\<lparr>history := deque_append (max_history s) (history s) (text_entry t now)\<rparr>)"
  by (auto simp: add_to_history_def)

lemma add_text_blank:
  "strip t = [] \<Longrightarrow> \<not> truthy d \<Longrightarrow> add_to_history ev now ns s (Some t) d = s"
  by (simp add: add_to_history_def)

lemma add_text_duplicate:
  "last_is_text s t \<Longrightarrow> \<not> truthy d \<Longrightarrow> add_to_history ev now ns s (Some t) d = s"
  by (simp add: add_to_history_def)

lemma save_image_Some:
  "save_image_from_clipboard ev s d = (Some info, s1) \<Longrightarrow>
   truthy d \<and> pil_available ev \<and> \<not> last_is_image ev s (the d) \<and> write_ok ev (blob_path ev (the d))
   \<and> image_path info = blob_path ev (the d) \<and> image_hash info = md5_hexdigest ev (the d)
   \<and> history s1 = history s \<and> max_history s1 = max_history s"
  by (auto simp: save_image_from_clipboard_def truthy_def split: option.splits if_splits)

lemma save_image_None:
  "save_image_from_clipboard ev s d = (None, s1) \<Longrightarrow> s1 = s"
  by (auto simp: save_image_from_clipboard_def split: option.splits if_splits)

lemma add_image_stored:
  "save_image_from_clipboard ev s (Some b) = (Some info, s1) \<Longrightarrow>
   add_to_history ev now ns s txt (Some b) =
     save_history ev ns
       (s1\<lparr>history := deque_append (max_history s) (history s) (image_entry info now)\<rparr>)"
  using save_image_Some [of ev s "Some b" info s1] by (simp add: add_to_history_def)

lemma add_image_not_stored:
  "save_image_from_clipboard ev s (Some b) = (None, s1) \<Longrightarrow> b \<noteq> [] \<Longrightarrow>
   add_to_history ev now ns s txt (Some b) = s"
  using save_image_None [of ev s "Some b" s1] by (simp add: add_to_history_def truthy_def)

lemma strip_letters [simp]:
  "strip (ascii ''A'') = ascii ''A''" "strip (ascii ''B'') = ascii ''B''"
  "strip (ascii ''C'') = ascii ''C''"
  by (simp_all add: strip_def ascii_def isspace_def)

lemma ascii_letters_neq [simp]:
  "ascii ''A'' \<noteq> ascii ''B''" "ascii ''B'' \<noteq> ascii ''A''"
  "ascii ''B'' \<noteq> ascii ''C''" "ascii ''C'' \<noteq> ascii ''B''" "ascii ''A'' \<noteq> []"
  "ascii ''B'' \<noteq> []" "ascii ''C'' \<noteq> []"
  by (simp_all add: ascii_def)

lemma get_text_entry [simp]:
  "get (text_entry t now) ''type'' = Some (ascii ''text'')"
  "get (text_entry t now) ''text'' = Some t"
  by (simp_all add: get_def text_entry_def)

lemma example_abc:
  assumes "max_history s = 2" "history s = []"
  shows "history (run_appends ev s
           [(Some (ascii ''A''), None, n1, m1), (Some (ascii ''B''), None, n2, m2),
            (Some (ascii ''C''), None, n3, m3)])
         = [text_entry (ascii ''B'') n2, text_entry (ascii ''C'') n3]"
proof -
  let ?a = "add_to_history ev n1 m1 s (Some (ascii ''A'')) None"
  let ?b = "add_to_history ev n2 m2 ?a (Some (ascii ''B'')) None"
  let ?c = "add_to_history ev n3 m3 ?b (Some (ascii ''C'')) None"
  have a: "history ?a = [text_entry (ascii ''A'') n1]"
    using assms by (simp add: add_text_accepted truthy_def last_is_text_def deque_append_def)
  have b: "history ?b = [text_entry (ascii ''A'') n1, text_entry (ascii ''B'') n2]"
    using assms a by (simp add: add_text_accepted truthy_def last_is_text_def deque_append_def)
  have c: "history ?c = [text_entry (ascii ''B'') n2, text_entry (ascii ''C'') n3]"
    using assms b by (simp add: add_text_accepted truthy_def last_is_text_def deque_append_def)
  show ?thesis using c by (simp add: run_appends_def)
qed


lemma tl_snoc: "xs \<noteq> [] \<Longrightarrow> tl (xs @ [x]) = tl xs @ [x]"
  by (cases xs) simp_all

section \<open>Capacity and eviction\<close>

text \<open>
  C1: after any sequence of calls of \<open>add_to_history\<close>, from start-up or from any state
  within its capacity, the history holds at most \<open>max_history\<close> entries; a call that
  inserts into a full history drops exactly the oldest entry and puts the new one last; with
  capacity 2, adding the texts A, B, C to an empty history leaves B and C.
\<close>

theorem history_capacity_fifo:
  "length (history (run_appends ev (init ev t0 m clear cfg fs cb) calls)) \<le> m
   \<and> (length (history s) \<le> max_history s \<longrightarrow>
        length (history (run_appends ev s calls)) \<le> max_history s)
   \<and> (length (history s) = max_history s \<and> strip t \<noteq> [] \<and> \<not> truthy d \<and> \<not> last_is_text s t \<longrightarrow>
        history (add_to_history ev now ns s (Some t) d) = tl (history s @ [text_entry t now])
        \<and> (history s \<noteq> [] \<longrightarrow>
             history (add_to_history ev now ns s (Some t) d)
               = tl (history s) @ [text_entry t now]))
   \<and> (length (history s) = max_history s
        \<and> save_image_from_clipboard ev s (Some b) = (Some info, s1) \<longrightarrow>
        history (add_to_history ev now ns s txt (Some b)) = tl (history s @ [image_entry info now])
        \<and> (history s \<noteq> [] \<longrightarrow>
             history (add_to_history ev now ns s txt (Some b))
               = tl (history s) @ [image_entry info now]))
   \<and> (max_history s = 2 \<and> history s = [] \<longrightarrow>
        history (run_appends ev s
           [(Some (ascii ''A''), None, n1, m1), (Some (ascii ''B''), None, n2, m2),
            (Some (ascii ''C''), None, n3, m3)])
         = [text_entry (ascii ''B'') n2, text_entry (ascii ''C'') n3])"
proof (intro conjI impI)
  have "length (history (init ev t0 m clear cfg fs cb)) \<le> max_history (init ev t0 m clear cfg fs cb)"
    by (simp add: init_length)
  then show "length (history (run_appends ev (init ev t0 m clear cfg fs cb) calls)) \<le> m"
    using run_appends_bound [of "init ev t0 m clear cfg fs cb" ev calls] by (simp add: init_length)
next
  assume "length (history s) \<le> max_history s"
  then show "length (history (run_appends ev s calls)) \<le> max_history s"
    by (simp add: run_appends_bound)
next
  assume a: "length (history s) = max_history s \<and> strip t \<noteq> [] \<and> \<not> truthy d \<and> \<not> last_is_text s t"
  then show h: "history (add_to_history ev now ns s (Some t) d) = tl (history s @ [text_entry t now])"
    by (simp add: add_text_accepted deque_append_full)
  assume "history s \<noteq> []"
  then show "history (add_to_history ev now ns s (Some t) d) = tl (history s) @ [text_entry t now]"
    using h by (simp add: tl_snoc)
next
  assume a: "length (history s) = max_history s
        \<and> save_image_from_clipboard ev s (Some b) = (Some info, s1)"
  then show h: "history (add_to_history ev now ns s txt (Some b))
      = tl (history s @ [image_entry info now])"
    by (simp add: add_image_stored deque_append_full)
  assume "history s \<noteq> []"
  then show "history (add_to_history ev now ns s txt (Some b))
      = tl (history s) @ [image_entry info now]"
    using h by (simp add: tl_snoc)
next
  assume "max_history s = 2 \<and> history s = []"
  then show "history (run_appends ev s
           [(Some (ascii ''A''), None, n1, m1), (Some (ascii ''B''), None, n2, m2),
            (Some (ascii ''C''), None, n3, m3)])
         = [text_entry (ascii ''B'') n2, text_entry (ascii ''C'') n3]"
    by (simp add: example_abc)
qed

theorem history_capacity_fifo_witness:
  "length (history (example_state 2 [text_entry (ascii ''A'') (ascii ''t1''),
                                      text_entry (ascii ''B'') (ascii ''t2'')])) = 2
   \<and> strip (ascii ''C'') \<noteq> []
   \<and> \<not> last_is_text (example_state 2 [text_entry (ascii ''A'') (ascii ''t1''),
                                      text_entry (ascii ''B'') (ascii ''t2'')]) (ascii ''C'')
   \<and> history (add_to_history example_env (ascii ''t3'') (ascii ''t3'')
        (example_state 2 [text_entry (ascii ''A'') (ascii ''t1''),
                          text_entry (ascii ''B'') (ascii ''t2'')]) (Some (ascii ''C'')) None)
     = [text_entry (ascii ''B'') (ascii ''t2''), text_entry (ascii ''C'') (ascii ''t3'')]"
  using history_capacity_fifo [of example_env _ _ _ _ _ _ _
      "example_state 2 [text_entry (ascii ''A'') (ascii ''t1''),
                        text_entry (ascii ''B'') (ascii ''t2'')]"
      "ascii ''C''" None "ascii ''t3''" "ascii ''t3''"]
  by (simp add: example_state_def new_state_def last_is_text_def truthy_def)

section \<open>Duplicates are judged against the last entry only\<close>

lemma get_image_entry [simp]:
  "get (image_entry info now) ''type'' = Some (ascii ''image'')"
  "get (image_entry info now) ''image_hash'' = Some (image_hash info)"
  by (simp_all add: get_def image_entry_def)

lemma deque_append_changes:
  assumes "0 < m" "d = [] \<or> last d \<noteq> x"
  shows "deque_append m d x \<noteq> d"
proof
  assume eq: "deque_append m d x = d"
  from deque_append_last [OF assms(1), of d x] eq have "d \<noteq> []" "last d = x" by simp_all
  with assms(2) show False by simp
qed

lemma not_last_is_text:
  "\<not> last_is_text s t \<Longrightarrow> history s = [] \<or> last (history s) \<noteq> text_entry t now"
  by (auto simp: last_is_text_def)

lemma not_last_is_image:
  "\<not> last_is_image ev s b \<Longrightarrow> image_hash info = md5_hexdigest ev b \<Longrightarrow>
   history s = [] \<or> last (history s) \<noteq> image_entry info now"
  by (auto simp: last_is_image_def)

lemma save_image_duplicate:
  "last_is_image ev s b \<Longrightarrow> save_image_from_clipboard ev s (Some b) = (None, s)"
  by (simp add: save_image_from_clipboard_def)

lemma add_image_duplicate:
  "last_is_image ev s b \<Longrightarrow> add_to_history ev now ns s None (Some b) = s"
  by (simp add: add_to_history_def save_image_duplicate truthy_def)

lemma add_image_duplicate_nonempty:
  "last_is_image ev s b \<Longrightarrow> b \<noteq> [] \<Longrightarrow> add_to_history ev now ns s txt (Some b) = s"
  by (simp add: add_to_history_def save_image_duplicate truthy_def)

lemma save_image_success:
  assumes "b \<noteq> []" "pil_available ev" "write_ok ev (blob_path ev b)" "\<not> last_is_image ev s b"
  shows "\<exists>info s1. save_image_from_clipboard ev s (Some b) = (Some info, s1)
           \<and> image_hash info = md5_hexdigest ev b \<and> image_path info = blob_path ev b"
  using assms by (cases "thumbnail ev b") (simp_all add: save_image_from_clipboard_def)

lemma example_aba:
  assumes "3 \<le> max_history s" "history s = []"
  shows "history (run_appends ev s
           [(Some (ascii ''A''), None, n1, m1), (Some (ascii ''B''), None, n2, m2),
            (Some (ascii ''A''), None, n3, m3)])
         = [text_entry (ascii ''A'') n1, text_entry (ascii ''B'') n2, text_entry (ascii ''A'') n3]"
proof -
  let ?a = "add_to_history ev n1 m1 s (Some (ascii ''A'')) None"
  let ?b = "add_to_history ev n2 m2 ?a (Some (ascii ''B'')) None"
  let ?c = "add_to_history ev n3 m3 ?b (Some (ascii ''A'')) None"
  have a: "history ?a = [text_entry (ascii ''A'') n1]"
    using assms by (simp add: add_text_accepted truthy_def last_is_text_def deque_append_def)
  have b: "history ?b = [text_entry (ascii ''A'') n1, text_entry (ascii ''B'') n2]"
    using assms a by (simp add: add_text_accepted truthy_def last_is_text_def deque_append_def)
  have c: "history ?c = [text_entry (ascii ''A'') n1, text_entry (ascii ''B'') n2,
                         text_entry (ascii ''A'') n3]"
    using assms b by (simp add: add_text_accepted truthy_def last_is_text_def deque_append_def)
  show ?thesis using c by (simp add: run_appends_def)
qed

lemma example_aa:
  assumes "1 \<le> max_history s" "history s = []"
  shows "history (run_appends ev s
           [(Some (ascii ''A''), None, n1, m1), (Some (ascii ''A''), None, n2, m2)])
         = [text_entry (ascii ''A'') n1]"
proof -
  let ?a = "add_to_history ev n1 m1 s (Some (ascii ''A'')) None"
  let ?b = "add_to_history ev n2 m2 ?a (Some (ascii ''A'')) None"
  have a: "history ?a = [text_entry (ascii ''A'') n1]"
    using assms by (simp add: add_text_accepted truthy_def last_is_text_def deque_append_def)
  then have "last_is_text ?a (ascii ''A'')" by (simp add: last_is_text_def)
  then have "?b = ?a" by (simp add: add_text_duplicate truthy_def)
  then show ?thesis using a by (simp add: run_appends_def)
qed

text \<open>
  C2, as amended: an append of a text that is not blank is skipped exactly when the last
  entry is a text entry with the same text, and an append of image bytes that can be stored
  (not empty, imaging available, the image file written) is skipped exactly when the last
  entry is an image entry with the same hash; a skipped append leaves the whole state as it
  is, any other puts the new entry last, which changes the history whenever the capacity is
  not zero. Entries before the last one play no part: A, B, A gives three entries and A, A
  one.
\<close>

theorem dedup_against_last_only:
  "(strip t \<noteq> [] \<and> \<not> truthy d \<longrightarrow>
      (last_is_text s t \<longrightarrow> add_to_history ev now ns s (Some t) d = s)
      \<and> (\<not> last_is_text s t \<longrightarrow>
           history (add_to_history ev now ns s (Some t) d)
             = deque_append (max_history s) (history s) (text_entry t now)
           \<and> (0 < max_history s \<longrightarrow>
                history (add_to_history ev now ns s (Some t) d) \<noteq> history s)))
   \<and> (b \<noteq> [] \<and> pil_available ev \<and> write_ok ev (blob_path ev b) \<longrightarrow>
      (last_is_image ev s b \<longrightarrow> add_to_history ev now ns s txt (Some b) = s)
      \<and> (\<not> last_is_image ev s b \<longrightarrow>
           (\<exists>info. image_hash info = md5_hexdigest ev b
              \<and> history (add_to_history ev now ns s txt (Some b))
                  = deque_append (max_history s) (history s) (image_entry info now))
           \<and> (0 < max_history s \<longrightarrow>
                history (add_to_history ev now ns s txt (Some b)) \<noteq> history s)))
   \<and> (3 \<le> max_history s \<and> history s = [] \<longrightarrow>
        history (run_appends ev s
           [(Some (ascii ''A''), None, n1, m1), (Some (ascii ''B''), None, n2, m2),
            (Some (ascii ''A''), None, n3, m3)])
         = [text_entry (ascii ''A'') n1, text_entry (ascii ''B'') n2,
            text_entry (ascii ''A'') n3])
   \<and> (1 \<le> max_history s \<and> history s = [] \<longrightarrow>
        history (run_appends ev s
           [(Some (ascii ''A''), None, n1, m1), (Some (ascii ''A''), None, n2, m2)])
         = [text_entry (ascii ''A'') n1])"
proof (intro conjI impI)
  assume a: "strip t \<noteq> [] \<and> \<not> truthy d" and l: "last_is_text s t"
  then show "add_to_history ev now ns s (Some t) d = s" by (simp add: add_text_duplicate)
next
  assume a: "strip t \<noteq> [] \<and> \<not> truthy d" and l: "\<not> last_is_text s t"
  then show h: "history (add_to_history ev now ns s (Some t) d)
             = deque_append (max_history s) (history s) (text_entry t now)"
    by (simp add: add_text_accepted)
  assume "0 < max_history s"
  then show "history (add_to_history ev now ns s (Some t) d) \<noteq> history s"
    using h deque_append_changes [OF _ not_last_is_text [OF l]] by simp
next
  assume a: "b \<noteq> [] \<and> pil_available ev \<and> write_ok ev (blob_path ev b)"
    and l: "last_is_image ev s b"
  then show "add_to_history ev now ns s txt (Some b) = s"
    by (simp add: add_image_duplicate_nonempty)
next
  assume a: "b \<noteq> [] \<and> pil_available ev \<and> write_ok ev (blob_path ev b)"
    and l: "\<not> last_is_image ev s b"
  then obtain info s1 where i: "save_image_from_clipboard ev s (Some b) = (Some info, s1)"
      "image_hash info = md5_hexdigest ev b"
    using save_image_success [of b ev s] by blast
  then have h: "history (add_to_history ev now ns s txt (Some b))
      = deque_append (max_history s) (history s) (image_entry info now)"
    by (simp add: add_image_stored)
  with i show "\<exists>info. image_hash info = md5_hexdigest ev b
              \<and> history (add_to_history ev now ns s txt (Some b))
                  = deque_append (max_history s) (history s) (image_entry info now)"
    by blast
  assume "0 < max_history s"
  then show "history (add_to_history ev now ns s txt (Some b)) \<noteq> history s"
    using h deque_append_changes [OF _ not_last_is_image [OF l i(2)]] by simp
next
  assume "3 \<le> max_history s \<and> history s = []"
  then show "history (run_appends ev s
           [(Some (ascii ''A''), None, n1, m1), (Some (ascii ''B''), None, n2, m2),
            (Some (ascii ''A''), None, n3, m3)])
         = [text_entry (ascii ''A'') n1, text_entry (ascii ''B'') n2,
            text_entry (ascii ''A'') n3]"
    by (simp add: example_aba)
next
  assume "1 \<le> max_history s \<and> history s = []"
  then show "history (run_appends ev s
           [(Some (ascii ''A''), None, n1, m1), (Some (ascii ''A''), None, n2, m2)])
         = [text_entry (ascii ''A'') n1]"
    by (simp add: example_aa)
qed

theorem dedup_against_last_only_witness:
  "3 \<le> max_history (example_state 100 []) \<and> history (example_state 100 []) = []
   \<and> history (run_appends example_env (example_state 100 [])
           [(Some (ascii ''A''), None, ascii ''t1'', ascii ''t1''),
            (Some (ascii ''B''), None, ascii ''t2'', ascii ''t2''),
            (Some (ascii ''A''), None, ascii ''t3'', ascii ''t3'')])
         = [text_entry (ascii ''A'') (ascii ''t1''), text_entry (ascii ''B'') (ascii ''t2''),
            text_entry (ascii ''A'') (ascii ''t3'')]
   \<and> strip (ascii ''A'') \<noteq> []
   \<and> last_is_text (example_state 100 [text_entry (ascii ''A'') (ascii ''t1'')]) (ascii ''A'')
   \<and> add_to_history example_env (ascii ''t2'') (ascii ''t2'')
        (example_state 100 [text_entry (ascii ''A'') (ascii ''t1'')]) (Some (ascii ''A'')) None
      = example_state 100 [text_entry (ascii ''A'') (ascii ''t1'')]"
proof -
  have 1: "3 \<le> max_history (example_state 100 []) \<and> history (example_state 100 []) = []"
    by (simp add: example_state_def new_state_def)
  have 2: "strip (ascii ''A'') \<noteq> [] \<and> \<not> truthy (None :: bytes option)"
    by (simp add: truthy_def)
  have 3: "last_is_text (example_state 100 [text_entry (ascii ''A'') (ascii ''t1'')]) (ascii ''A'')"
    by (simp add: last_is_text_def example_state_def new_state_def)
  from 1 dedup_against_last_only [of _ _ "example_state 100 []" example_env]
  have "history (run_appends example_env (example_state 100 [])
           [(Some (ascii ''A''), None, ascii ''t1'', ascii ''t1''),
            (Some (ascii ''B''), None, ascii ''t2'', ascii ''t2''),
            (Some (ascii ''A''), None, ascii ''t3'', ascii ''t3'')])
         = [text_entry (ascii ''A'') (ascii ''t1''), text_entry (ascii ''B'') (ascii ''t2''),
            text_entry (ascii ''A'') (ascii ''t3'')]"
    by blast
  moreover from 2 3 dedup_against_last_only [of "ascii ''A''" None
      "example_state 100 [text_entry (ascii ''A'') (ascii ''t1'')]" example_env
      "ascii ''t2''" "ascii ''t2''"]
  have "add_to_history example_env (ascii ''t2'') (ascii ''t2'')
        (example_state 100 [text_entry (ascii ''A'') (ascii ''t1'')]) (Some (ascii ''A'')) None
      = example_state 100 [text_entry (ascii ''A'') (ascii ''t1'')]"
    by blast
  ultimately show ?thesis using 1 2 3 by blast
qed

theorem dedup_blank_counterexample:
  "add_to_history example_env (ascii ''t2'') (ascii ''t2'')
        (example_state 100 [text_entry (ascii ''A'') (ascii ''t1'')]) (Some (ascii '' '')) None
      = example_state 100 [text_entry (ascii ''A'') (ascii ''t1'')]
   \<and> \<not> last_is_text (example_state 100 [text_entry (ascii ''A'') (ascii ''t1'')]) (ascii '' '')"
  by (simp add: add_to_history_def truthy_def strip_def isspace_def ascii_def last_is_text_def
      example_state_def new_state_def)

section \<open>What a text append stores\<close>

lemma strip_replicate_A: "strip (replicate 101 65) = replicate 101 65"
  by (simp add: strip_def isspace_def)

lemma length_preview: "length (take 100 t @ (if 100 < length t then ascii ''...'' else [])) \<le> 103"
  by (simp add: ascii_def)

text \<open>
  C3, as amended: a text append (no image bytes given) whose text is missing, empty or blank
  after trimming leaves the state as it is; one whose text is not blank also leaves it as it
  is when the last entry is a text entry with the same text; every other one puts last in the
  history an entry of type text whose \<open>text\<close> is the string as given, whose \<open>timestamp\<close>
  is the clock reading and whose \<open>preview\<close> is the first 100 characters, followed by three
  full stops exactly when the text is longer than 100, so at most 103 characters.
\<close>

theorem text_append_entry:
  "\<not> truthy d \<longrightarrow>
     add_to_history ev now ns s None d = s
     \<and> (strip t = [] \<longrightarrow> add_to_history ev now ns s (Some t) d = s)
     \<and> (strip t \<noteq> [] \<and> last_is_text s t \<longrightarrow> add_to_history ev now ns s (Some t) d = s)
     \<and> (strip t \<noteq> [] \<and> \<not> last_is_text s t \<longrightarrow>
          history (add_to_history ev now ns s (Some t) d)
            = deque_append (max_history s) (history s) (text_entry t now)
          \<and> (0 < max_history s \<longrightarrow>
               last (history (add_to_history ev now ns s (Some t) d)) = text_entry t now)
          \<and> get (text_entry t now) ''type'' = Some (ascii ''text'')
          \<and> get (text_entry t now) ''text'' = Some t
          \<and> get (text_entry t now) ''timestamp'' = Some now
          \<and> get (text_entry t now) ''preview''
              = Some (take 100 t @ (if 100 < length t then ascii ''...'' else []))
          \<and> length (get_or (text_entry t now) ''preview'' []) \<le> 103
          \<and> (length t \<le> 100 \<longrightarrow> get (text_entry t now) ''preview'' = Some t))"
proof (intro conjI impI)
  assume d: "\<not> truthy d"
  then show "add_to_history ev now ns s None d = s" by (simp add: add_to_history_def)
  { assume "strip t = []"
    then show "add_to_history ev now ns s (Some t) d = s" using d by (simp add: add_text_blank) }
  { assume "strip t \<noteq> [] \<and> last_is_text s t"
    then show "add_to_history ev now ns s (Some t) d = s"
      using d by (simp add: add_text_duplicate) }
  assume a: "strip t \<noteq> [] \<and> \<not> last_is_text s t"
  then show h: "history (add_to_history ev now ns s (Some t) d)
            = deque_append (max_history s) (history s) (text_entry t now)"
    using d by (simp add: add_text_accepted)
  { assume "0 < max_history s"
    then show "last (history (add_to_history ev now ns s (Some t) d)) = text_entry t now"
      using h by (simp add: deque_append_last) }
  show "get (text_entry t now) ''type'' = Some (ascii ''text'')" by simp
  show "get (text_entry t now) ''text'' = Some t" by simp
  show "get (text_entry t now) ''timestamp'' = Some now" by (simp add: get_def text_entry_def)
  show "get (text_entry t now) ''preview''
              = Some (take 100 t @ (if 100 < length t then ascii ''...'' else []))"
    by (simp add: get_def text_entry_def)
  show "length (get_or (text_entry t now) ''preview'' []) \<le> 103"
    using length_preview [of t] by (simp add: get_or_def text_entry_def)
  { assume "length t \<le> 100"
    then show "get (text_entry t now) ''preview'' = Some t"
      by (simp add: get_def text_entry_def) }
qed

theorem text_append_entry_witness:
  "\<not> truthy (None :: bytes option)
   \<and> strip (replicate 101 65) \<noteq> []
   \<and> \<not> last_is_text (example_state 100 []) (replicate 101 65)
   \<and> history (add_to_history example_env (ascii ''t1'') (ascii ''t1'') (example_state 100 [])
        (Some (replicate 101 65)) None) = [text_entry (replicate 101 65) (ascii ''t1'')]
   \<and> get (text_entry (replicate 101 65) (ascii ''t1'')) ''preview''
       = Some (replicate 100 65 @ ascii ''...'')"
proof -
  have 1: "\<not> truthy (None :: bytes option)" by (simp add: truthy_def)
  have 2: "strip (replicate 101 65) \<noteq> []" by (simp add: strip_replicate_A)
  have 3: "\<not> last_is_text (example_state 100 []) (replicate 101 65)"
    by (simp add: last_is_text_def example_state_def new_state_def)
  from 1 2 3 text_append_entry [of None example_env "ascii ''t1''" "ascii ''t1''"
      "example_state 100 []" "replicate 101 65"]
  have "history (add_to_history example_env (ascii ''t1'') (ascii ''t1'') (example_state 100 [])
        (Some (replicate 101 65)) None)
          = deque_append (max_history (example_state 100 [])) (history (example_state 100 []))
              (text_entry (replicate 101 65) (ascii ''t1''))"
    and "get (text_entry (replicate 101 65) (ascii ''t1'')) ''preview''
       = Some (take 100 (replicate 101 65)
            @ (if 100 < length (replicate 101 (65::nat)) then ascii ''...'' else []))"
    by blast+
  then show ?thesis using 1 2 3
    by (simp add: deque_append_def example_state_def new_state_def)
qed

theorem text_append_counterexample:
  "strip (ascii ''A'') \<noteq> []
   \<and> add_to_history example_env (ascii ''t2'') (ascii ''t2'')
        (example_state 100 [text_entry (ascii ''A'') (ascii ''t1'')]) (Some (ascii ''A'')) None
      = example_state 100 [text_entry (ascii ''A'') (ascii ''t1'')]"
  by (simp add: add_to_history_def truthy_def last_is_text_def example_state_def new_state_def)

section \<open>Storing the same image twice\<close>

lemma save_image_files:
  "save_image_from_clipboard ev s (Some b) = (r, s1) \<Longrightarrow>
   dom (files s1) \<subseteq> dom (files s) \<union> {blob_path ev b, thumb_path ev b}"
  by (auto simp: save_image_from_clipboard_def split: option.splits if_splits)

lemma save_image_again:
  assumes "save_image_from_clipboard ev s (Some b) = (Some info, s1)"
    and "files s' = files s1" and "\<not> last_is_image ev s' b"
  shows "save_image_from_clipboard ev s' (Some b) = (Some info, s')"
proof (cases "thumbnail ev b")
  case None
  with assms have "files s' = (files s)(blob_path ev b \<mapsto> b)"
    by (auto simp: save_image_from_clipboard_def split: if_splits)
  then have "s'\<lparr>files := (files s')(blob_path ev b \<mapsto> b)\<rparr> = s'" by simp
  with assms None show ?thesis
    by (auto simp: save_image_from_clipboard_def split: if_splits)
next
  case (Some pv)
  with assms have "files s' = (files s)(blob_path ev b \<mapsto> b, thumb_path ev b \<mapsto> pv)"
    by (auto simp: save_image_from_clipboard_def split: if_splits)
  then have "(files s')(blob_path ev b \<mapsto> b, thumb_path ev b \<mapsto> pv) = files s'"
    by (auto simp: fun_eq_iff)
  then have "s'\<lparr>files := (files s')(blob_path ev b \<mapsto> b, thumb_path ev b \<mapsto> pv)\<rparr> = s'"
    by simp
  with assms Some show ?thesis
    by (auto simp: save_image_from_clipboard_def split: if_splits)
qed

lemma add_image_None_unchanged:
  "save_image_from_clipboard ev s (Some b) = (None, s1) \<Longrightarrow>
   add_to_history ev now ns s None (Some b) = s"
  using save_image_None [of ev s "Some b" s1]
  by (cases "b = []") (simp_all add: add_to_history_def truthy_def)

lemma add_image_twice:
  "files (add_to_history ev n2 m2 (add_to_history ev n1 m1 s None (Some b)) None (Some b))
     = files (add_to_history ev n1 m1 s None (Some b))
   \<and> history (add_to_history ev n2 m2 (add_to_history ev n1 m1 s None (Some b)) None (Some b))
     = history (add_to_history ev n1 m1 s None (Some b))
   \<and> (0 < max_history s \<longrightarrow>
        add_to_history ev n2 m2 (add_to_history ev n1 m1 s None (Some b)) None (Some b)
          = add_to_history ev n1 m1 s None (Some b))"
proof -
  let ?a1 = "add_to_history ev n1 m1 s None (Some b)"
  let ?a2 = "add_to_history ev n2 m2 ?a1 None (Some b)"
  obtain r s1 where r: "save_image_from_clipboard ev s (Some b) = (r, s1)"
    by (cases "save_image_from_clipboard ev s (Some b)") auto
  show ?thesis
  proof (cases r)
    case None
    with r have "?a1 = s" by (simp add: add_image_None_unchanged)
    moreover from r None have "add_to_history ev n2 m2 s None (Some b) = s"
      by (simp add: add_image_None_unchanged)
    ultimately show ?thesis by simp
  next
    case (Some info)
    with r have st: "save_image_from_clipboard ev s (Some b) = (Some info, s1)" by simp
    note facts = save_image_Some [OF st]
    have a1: "?a1 = save_history ev m1
        (s1\<lparr>history := deque_append (max_history s) (history s) (image_entry info n1)\<rparr>)"
      by (rule add_image_stored [OF st])
    have h1: "history ?a1 = deque_append (max_history s) (history s) (image_entry info n1)"
      by (simp add: a1)
    have f1: "files ?a1 = files s1" by (simp add: a1)
    show ?thesis
    proof (cases "last_is_image ev ?a1 b")
      case True
      then have "?a2 = ?a1" by (rule add_image_duplicate)
      then show ?thesis by simp
    next
      case False
      have m0: "max_history s = 0"
      proof (rule ccontr)
        assume "max_history s \<noteq> 0"
        then have "history ?a1 \<noteq> [] \<and> last (history ?a1) = image_entry info n1"
          using deque_append_last [of "max_history s" "history s" "image_entry info n1"]
          by (simp add: h1)
        then have "last_is_image ev ?a1 b" using facts by (simp add: last_is_image_def)
        with False show False by simp
      qed
      have e1: "history ?a1 = []"
      proof (rule ccontr)
        assume ne: "history ?a1 \<noteq> []"
        then have "history s \<noteq> []" using m0 by (auto simp: h1 deque_append_def)
        then have "last (history ?a1) = image_entry info n1"
          using m0 ne by (simp add: h1 deque_append_def tl_snoc)
        with ne have "last_is_image ev ?a1 b" using facts by (simp add: last_is_image_def)
        with False show False by simp
      qed
      have st2: "save_image_from_clipboard ev ?a1 (Some b) = (Some info, ?a1)"
        by (rule save_image_again [OF st f1 False])
      have a2: "?a2 = save_history ev m2
          (?a1\<lparr>history := deque_append (max_history ?a1) (history ?a1) (image_entry info n2)\<rparr>)"
        by (rule add_image_stored [OF st2])
      have "history ?a2 = []" using m0 e1 by (simp add: a2 deque_append_def)
      moreover have "files ?a2 = files ?a1" by (simp add: a2)
      ultimately show ?thesis using m0 e1 by simp
    qed
  qed
qed

lemma add_image_files_dom:
  "dom (files (add_to_history ev now ns s None (Some b)))
     \<subseteq> dom (files s) \<union> {blob_path ev b, thumb_path ev b}"
proof -
  obtain r s1 where r: "save_image_from_clipboard ev s (Some b) = (r, s1)"
    by (cases "save_image_from_clipboard ev s (Some b)") auto
  show ?thesis
  proof (cases r)
    case None
    with r show ?thesis by (auto simp: add_image_None_unchanged)
  next
    case (Some info)
    with r have "files (add_to_history ev now ns s None (Some b)) = files s1"
      by (simp add: add_image_stored)
    with save_image_files [OF r] show ?thesis by simp
  qed
qed

lemma blob_path_neq_thumb_path: "blob_path ev b \<noteq> thumb_path ev b"
  by (simp add: blob_path_def thumb_path_def path_join_def ascii_def)

lemma save_image_stores:
  assumes "b \<noteq> []" "pil_available ev" "write_ok ev (blob_path ev b)" "\<not> last_is_image ev s b"
  shows "save_image_from_clipboard ev s (Some b) =
     (Some \<lparr>image_path = blob_path ev b,
            preview_path = (case thumbnail ev b of None \<Rightarrow> blob_path ev b
                            | Some pv \<Rightarrow> thumb_path ev b),
            image_hash = md5_hexdigest ev b\<rparr>,
      s\<lparr>files := (case thumbnail ev b of
                     None \<Rightarrow> (files s)(blob_path ev b \<mapsto> b)
                   | Some pv \<Rightarrow> (files s)(blob_path ev b \<mapsto> b, thumb_path ev b \<mapsto> pv))\<rparr>)"
  using assms by (cases "thumbnail ev b") (simp_all add: save_image_from_clipboard_def)

lemma first_image_store:
  assumes "b \<noteq> []" "pil_available ev" "write_ok ev (blob_path ev b)" "\<not> last_is_image ev s b"
  shows "files (add_to_history ev n1 m1 s None (Some b)) (blob_path ev b) = Some b
     \<and> files (add_to_history ev n1 m1 s None (Some b))
         = (case thumbnail ev b of
              None \<Rightarrow> (files s)(blob_path ev b \<mapsto> b)
            | Some pv \<Rightarrow> (files s)(blob_path ev b \<mapsto> b, thumb_path ev b \<mapsto> pv))
     \<and> history (add_to_history ev n1 m1 s None (Some b))
         = deque_append (max_history s) (history s)
             (image_entry \<lparr>image_path = blob_path ev b,
                preview_path = (case thumbnail ev b of None \<Rightarrow> blob_path ev b
                                | Some pv \<Rightarrow> thumb_path ev b),
                image_hash = md5_hexdigest ev b\<rparr> n1)
     \<and> (0 < max_history s \<longrightarrow>
          history (add_to_history ev n1 m1 s None (Some b)) \<noteq> history s
          \<and> last (history (add_to_history ev n1 m1 s None (Some b)))
              = image_entry \<lparr>image_path = blob_path ev b,
                  preview_path = (case thumbnail ev b of None \<Rightarrow> blob_path ev b
                                  | Some pv \<Rightarrow> thumb_path ev b),
                  image_hash = md5_hexdigest ev b\<rparr> n1
          \<and> last_is_image ev (add_to_history ev n1 m1 s None (Some b)) b)"
proof -
  let ?info = "\<lparr>image_path = blob_path ev b,
                preview_path = (case thumbnail ev b of None \<Rightarrow> blob_path ev b
                                | Some pv \<Rightarrow> thumb_path ev b),
                image_hash = md5_hexdigest ev b\<rparr>"
  let ?f = "case thumbnail ev b of
              None \<Rightarrow> (files s)(blob_path ev b \<mapsto> b)
            | Some pv \<Rightarrow> (files s)(blob_path ev b \<mapsto> b, thumb_path ev b \<mapsto> pv)"
  let ?a1 = "add_to_history ev n1 m1 s None (Some b)"
  note st = save_image_stores [OF assms]
  have a1: "?a1 = save_history ev m1
      ((s\<lparr>files := ?f\<rparr>)\<lparr>history := deque_append (max_history s) (history s)
                                  (image_entry ?info n1)\<rparr>)"
    by (rule add_image_stored [OF st])
  have f: "files ?a1 = ?f" by (simp add: a1)
  have fb: "?f (blob_path ev b) = Some b"
    using blob_path_neq_thumb_path [of ev b] by (cases "thumbnail ev b") simp_all
  have h: "history ?a1 = deque_append (max_history s) (history s) (image_entry ?info n1)"
    by (simp add: a1)
  have pos: "0 < max_history s \<longrightarrow>
          history ?a1 \<noteq> history s \<and> last (history ?a1) = image_entry ?info n1
          \<and> last_is_image ev ?a1 b"
  proof
    assume m: "0 < max_history s"
    have "image_hash ?info = md5_hexdigest ev b" by simp
    from not_last_is_image [OF assms(4) this, of n1]
    have c: "history ?a1 \<noteq> history s"
      using deque_append_changes [OF m, of "history s" "image_entry ?info n1"] h by simp
    from deque_append_last [OF m, of "history s" "image_entry ?info n1"]
    have l: "history ?a1 \<noteq> []" "last (history ?a1) = image_entry ?info n1"
      using h by simp_all
    then have "last_is_image ev ?a1 b" by (simp add: last_is_image_def)
    with c l show "history ?a1 \<noteq> history s \<and> last (history ?a1) = image_entry ?info n1
          \<and> last_is_image ev ?a1 b" by simp
  qed
  from f fb h pos show ?thesis by simp
qed

text \<open>
  C4: when the last entry is an image entry whose hash is the digest of the bytes,
  \<open>save_image_from_clipboard\<close> returns its \<open>None\<close> and writes no file, and the append
  leaves the whole state as it is. Two consecutive appends of the same bytes leave the files
  and the history as the first append left them (and, unless the capacity is zero, the whole
  state), and no file is created but the image and its preview. When the bytes can be stored
  and are not a duplicate, the first append writes the image file with these bytes (and the
  preview when the thumbnail succeeds, and nothing else) and puts the image entry last; the
  second append then meets that entry, writes nothing and changes nothing.
\<close>

theorem duplicate_image_writes_nothing:
  "(last_is_image ev s b \<longrightarrow>
      save_image_from_clipboard ev s (Some b) = (None, s)
      \<and> add_to_history ev now ns s None (Some b) = s)
   \<and> files (add_to_history ev n2 m2 (add_to_history ev n1 m1 s None (Some b)) None (Some b))
       = files (add_to_history ev n1 m1 s None (Some b))
   \<and> history (add_to_history ev n2 m2 (add_to_history ev n1 m1 s None (Some b)) None (Some b))
       = history (add_to_history ev n1 m1 s None (Some b))
   \<and> (0 < max_history s \<longrightarrow>
        add_to_history ev n2 m2 (add_to_history ev n1 m1 s None (Some b)) None (Some b)
          = add_to_history ev n1 m1 s None (Some b))
   \<and> dom (files (add_to_history ev n2 m2 (add_to_history ev n1 m1 s None (Some b))
              None (Some b)))
       \<subseteq> dom (files s) \<union> {blob_path ev b, thumb_path ev b}
   \<and> (b \<noteq> [] \<and> pil_available ev \<and> write_ok ev (blob_path ev b) \<and> \<not> last_is_image ev s b \<longrightarrow>
        files (add_to_history ev n1 m1 s None (Some b)) (blob_path ev b) = Some b
        \<and> files (add_to_history ev n1 m1 s None (Some b))
            = (case thumbnail ev b of
                 None \<Rightarrow> (files s)(blob_path ev b \<mapsto> b)
               | Some pv \<Rightarrow> (files s)(blob_path ev b \<mapsto> b, thumb_path ev b \<mapsto> pv))
        \<and> history (add_to_history ev n1 m1 s None (Some b))
            = deque_append (max_history s) (history s)
                (image_entry \<lparr>image_path = blob_path ev b,
                   preview_path = (case thumbnail ev b of None \<Rightarrow> blob_path ev b
                                   | Some pv \<Rightarrow> thumb_path ev b),
                   image_hash = md5_hexdigest ev b\<rparr> n1)
        \<and> (0 < max_history s \<longrightarrow>
             history (add_to_history ev n1 m1 s None (Some b)) \<noteq> history s
             \<and> last (history (add_to_history ev n1 m1 s None (Some b)))
                 = image_entry \<lparr>image_path = blob_path ev b,
                     preview_path = (case thumbnail ev b of None \<Rightarrow> blob_path ev b
                                     | Some pv \<Rightarrow> thumb_path ev b),
                     image_hash = md5_hexdigest ev b\<rparr> n1
             \<and> last_is_image ev (add_to_history ev n1 m1 s None (Some b)) b
             \<and> save_image_from_clipboard ev (add_to_history ev n1 m1 s None (Some b)) (Some b)
                 = (None, add_to_history ev n1 m1 s None (Some b))
             \<and> add_to_history ev n2 m2 (add_to_history ev n1 m1 s None (Some b)) None (Some b)
                 = add_to_history ev n1 m1 s None (Some b)))"
proof -
  have f2: "files (add_to_history ev n2 m2 (add_to_history ev n1 m1 s None (Some b)) None (Some b))
       = files (add_to_history ev n1 m1 s None (Some b))"
    using add_image_twice [of ev n2 m2 n1 m1 s b] by blast
  then have dm: "dom (files (add_to_history ev n2 m2 (add_to_history ev n1 m1 s None (Some b))
              None (Some b)))
       \<subseteq> dom (files s) \<union> {blob_path ev b, thumb_path ev b}"
    using add_image_files_dom [of ev n1 m1 s b] by simp
  have old: "(last_is_image ev s b \<longrightarrow>
      save_image_from_clipboard ev s (Some b) = (None, s)
      \<and> add_to_history ev now ns s None (Some b) = s)
   \<and> files (add_to_history ev n2 m2 (add_to_history ev n1 m1 s None (Some b)) None (Some b))
       = files (add_to_history ev n1 m1 s None (Some b))
   \<and> history (add_to_history ev n2 m2 (add_to_history ev n1 m1 s None (Some b)) None (Some b))
       = history (add_to_history ev n1 m1 s None (Some b))
   \<and> (0 < max_history s \<longrightarrow>
        add_to_history ev n2 m2 (add_to_history ev n1 m1 s None (Some b)) None (Some b)
          = add_to_history ev n1 m1 s None (Some b))"
    using add_image_twice [of ev n2 m2 n1 m1 s b]
    by (simp add: save_image_duplicate add_image_duplicate)
  have new: "b \<noteq> [] \<and> pil_available ev \<and> write_ok ev (blob_path ev b) \<and> \<not> last_is_image ev s b \<longrightarrow>
        files (add_to_history ev n1 m1 s None (Some b)) (blob_path ev b) = Some b
        \<and> files (add_to_history ev n1 m1 s None (Some b))
            = (case thumbnail ev b of
                 None \<Rightarrow> (files s)(blob_path ev b \<mapsto> b)
               | Some pv \<Rightarrow> (files s)(blob_path ev b \<mapsto> b, thumb_path ev b \<mapsto> pv))
        \<and> history (add_to_history ev n1 m1 s None (Some b))
            = deque_append (max_history s) (history s)
                (image_entry \<lparr>image_path = blob_path ev b,
                   preview_path = (case thumbnail ev b of None \<Rightarrow> blob_path ev b
                                   | Some pv \<Rightarrow> thumb_path ev b),
                   image_hash = md5_hexdigest ev b\<rparr> n1)
        \<and> (0 < max_history s \<longrightarrow>
             history (add_to_history ev n1 m1 s None (Some b)) \<noteq> history s
             \<and> last (history (add_to_history ev n1 m1 s None (Some b)))
                 = image_entry \<lparr>image_path = blob_path ev b,
                     preview_path = (case thumbnail ev b of None \<Rightarrow> blob_path ev b
                                     | Some pv \<Rightarrow> thumb_path ev b),
                     image_hash = md5_hexdigest ev b\<rparr> n1
             \<and> last_is_image ev (add_to_history ev n1 m1 s None (Some b)) b
             \<and> save_image_from_clipboard ev (add_to_history ev n1 m1 s None (Some b)) (Some b)
                 = (None, add_to_history ev n1 m1 s None (Some b))
             \<and> add_to_history ev n2 m2 (add_to_history ev n1 m1 s None (Some b)) None (Some b)
                 = add_to_history ev n1 m1 s None (Some b))"
  proof
    assume a: "b \<noteq> [] \<and> pil_available ev \<and> write_ok ev (blob_path ev b)
        \<and> \<not> last_is_image ev s b"
    then have fs: "files (add_to_history ev n1 m1 s None (Some b)) (blob_path ev b) = Some b
     \<and> files (add_to_history ev n1 m1 s None (Some b))
         = (case thumbnail ev b of
              None \<Rightarrow> (files s)(blob_path ev b \<mapsto> b)
            | Some pv \<Rightarrow> (files s)(blob_path ev b \<mapsto> b, thumb_path ev b \<mapsto> pv))
     \<and> history (add_to_history ev n1 m1 s None (Some b))
         = deque_append (max_history s) (history s)
             (image_entry \<lparr>image_path = blob_path ev b,
                preview_path = (case thumbnail ev b of None \<Rightarrow> blob_path ev b
                                | Some pv \<Rightarrow> thumb_path ev b),
                image_hash = md5_hexdigest ev b\<rparr> n1)
     \<and> (0 < max_history s \<longrightarrow>
          history (add_to_history ev n1 m1 s None (Some b)) \<noteq> history s
          \<and> last (history (add_to_history ev n1 m1 s None (Some b)))
              = image_entry \<lparr>image_path = blob_path ev b,
                  preview_path = (case thumbnail ev b of None \<Rightarrow> blob_path ev b
                                  | Some pv \<Rightarrow> thumb_path ev b),
                  image_hash = md5_hexdigest ev b\<rparr> n1
          \<and> last_is_image ev (add_to_history ev n1 m1 s None (Some b)) b)"
      using first_image_store [of b ev s n1 m1] by blast
    have dup: "0 < max_history s \<longrightarrow>
        save_image_from_clipboard ev (add_to_history ev n1 m1 s None (Some b)) (Some b)
                 = (None, add_to_history ev n1 m1 s None (Some b))
        \<and> add_to_history ev n2 m2 (add_to_history ev n1 m1 s None (Some b)) None (Some b)
                 = add_to_history ev n1 m1 s None (Some b)"
      using fs old by (simp add: save_image_duplicate)
    from fs dup show "files (add_to_history ev n1 m1 s None (Some b)) (blob_path ev b) = Some b
        \<and> files (add_to_history ev n1 m1 s None (Some b))
            = (case thumbnail ev b of
                 None \<Rightarrow> (files s)(blob_path ev b \<mapsto> b)
               | Some pv \<Rightarrow> (files s)(blob_path ev b \<mapsto> b, thumb_path ev b \<mapsto> pv))
        \<and> history (add_to_history ev n1 m1 s None (Some b))
            = deque_append (max_history s) (history s)
                (image_entry \<lparr>image_path = blob_path ev b,
                   preview_path = (case thumbnail ev b of None \<Rightarrow> blob_path ev b
                                   | Some pv \<Rightarrow> thumb_path ev b),
                   image_hash = md5_hexdigest ev b\<rparr> n1)
        \<and> (0 < max_history s \<longrightarrow>
             history (add_to_history ev n1 m1 s None (Some b)) \<noteq> history s
             \<and> last (history (add_to_history ev n1 m1 s None (Some b)))
                 = image_entry \<lparr>image_path = blob_path ev b,
                     preview_path = (case thumbnail ev b of None \<Rightarrow> blob_path ev b
                                     | Some pv \<Rightarrow> thumb_path ev b),
                     image_hash = md5_hexdigest ev b\<rparr> n1
             \<and> last_is_image ev (add_to_history ev n1 m1 s None (Some b)) b
             \<and> save_image_from_clipboard ev (add_to_history ev n1 m1 s None (Some b)) (Some b)
                 = (None, add_to_history ev n1 m1 s None (Some b))
             \<and> add_to_history ev n2 m2 (add_to_history ev n1 m1 s None (Some b)) None (Some b)
                 = add_to_history ev n1 m1 s None (Some b))"
      by blast
  qed
  from old dm new show ?thesis by blast
qed

theorem duplicate_image_writes_nothing_witness:
  "[1, 2, 3] \<noteq> ([] :: bytes)
   \<and> pil_available example_env
   \<and> write_ok example_env (blob_path example_env [1, 2, 3])
   \<and> \<not> last_is_image example_env (example_state 100 []) [1, 2, 3]
   \<and> 0 < max_history (example_state 100 [])
   \<and> files (add_to_history example_env (ascii ''t1'') (ascii ''t1'') (example_state 100 [])
          None (Some [1, 2, 3])) (blob_path example_env [1, 2, 3]) = Some [1, 2, 3]
   \<and> files (add_to_history example_env (ascii ''t1'') (ascii ''t1'') (example_state 100 [])
          None (Some [1, 2, 3])) (thumb_path example_env [1, 2, 3]) = Some [1]
   \<and> history (add_to_history example_env (ascii ''t1'') (ascii ''t1'') (example_state 100 [])
          None (Some [1, 2, 3]))
       = [image_entry \<lparr>image_path = blob_path example_env [1, 2, 3],
                        preview_path = thumb_path example_env [1, 2, 3],
                        image_hash = [1, 2, 3]\<rparr> (ascii ''t1'')]
   \<and> last_is_image example_env (add_to_history example_env (ascii ''t1'') (ascii ''t1'') (example_state 100 [])
          None (Some [1, 2, 3])) [1, 2, 3]
   \<and> save_image_from_clipboard example_env (add_to_history example_env (ascii ''t1'') (ascii ''t1'') (example_state 100 [])
          None (Some [1, 2, 3])) (Some [1, 2, 3]) = (None, (add_to_history example_env (ascii ''t1'') (ascii ''t1'') (example_state 100 [])
          None (Some [1, 2, 3])))
   \<and> add_to_history example_env (ascii ''t2'') (ascii ''t2'') (add_to_history example_env (ascii ''t1'') (ascii ''t1'') (example_state 100 [])
          None (Some [1, 2, 3])) None (Some [1, 2, 3]) = (add_to_history example_env (ascii ''t1'') (ascii ''t1'') (example_state 100 [])
          None (Some [1, 2, 3]))"
proof -
  have 1: "[1, 2, 3] \<noteq> ([] :: bytes)" by simp
  have 2: "pil_available example_env" by (simp add: example_env_def)
  have 3: "write_ok example_env (blob_path example_env [1, 2, 3])" by (simp add: example_env_def)
  have 4: "\<not> last_is_image example_env (example_state 100 []) [1, 2, 3]"
    by (simp add: last_is_image_def example_state_def new_state_def)
  have 5: "0 < max_history (example_state 100 [])"
    by (simp add: example_state_def new_state_def)
  have t: "thumbnail example_env [1, 2, 3] = Some [1]" by (simp add: example_env_def)
  have h: "md5_hexdigest example_env [1, 2, 3] = [1, 2, 3]" by (simp add: example_env_def)
  have e: "history (example_state 100 []) = []" "max_history (example_state 100 []) = 100"
    "files (example_state 100 []) = Map.empty"
    by (simp_all add: example_state_def new_state_def)
  from 1 2 3 4 5 duplicate_image_writes_nothing [of example_env "example_state 100 []" "[1, 2, 3]"
      _ _ "ascii ''t2''" "ascii ''t2''" "ascii ''t1''" "ascii ''t1''"]
  have r: "files (add_to_history example_env (ascii ''t1'') (ascii ''t1'') (example_state 100 [])
          None (Some [1, 2, 3])) (blob_path example_env [1, 2, 3]) = Some [1, 2, 3]"
    "files (add_to_history example_env (ascii ''t1'') (ascii ''t1'') (example_state 100 [])
          None (Some [1, 2, 3]))
      = (case thumbnail example_env [1, 2, 3] of
           None \<Rightarrow> (files (example_state 100 []))(blob_path example_env [1, 2, 3] \<mapsto> [1, 2, 3])
         | Some pv \<Rightarrow> (files (example_state 100 []))
             (blob_path example_env [1, 2, 3] \<mapsto> [1, 2, 3],
              thumb_path example_env [1, 2, 3] \<mapsto> pv))"
    "history (add_to_history example_env (ascii ''t1'') (ascii ''t1'') (example_state 100 [])
          None (Some [1, 2, 3]))
      = deque_append (max_history (example_state 100 [])) (history (example_state 100 []))
          (image_entry \<lparr>image_path = blob_path example_env [1, 2, 3],
             preview_path = (case thumbnail example_env [1, 2, 3] of
                               None \<Rightarrow> blob_path example_env [1, 2, 3]
                             | Some pv \<Rightarrow> thumb_path example_env [1, 2, 3]),
             image_hash = md5_hexdigest example_env [1, 2, 3]\<rparr> (ascii ''t1''))"
    "last_is_image example_env (add_to_history example_env (ascii ''t1'') (ascii ''t1'') (example_state 100 [])
          None (Some [1, 2, 3])) [1, 2, 3]"
    "save_image_from_clipboard example_env (add_to_history example_env (ascii ''t1'') (ascii ''t1'') (example_state 100 [])
          None (Some [1, 2, 3])) (Some [1, 2, 3]) = (None, (add_to_history example_env (ascii ''t1'') (ascii ''t1'') (example_state 100 [])
          None (Some [1, 2, 3])))"
    "add_to_history example_env (ascii ''t2'') (ascii ''t2'') (add_to_history example_env (ascii ''t1'') (ascii ''t1'') (example_state 100 [])
          None (Some [1, 2, 3])) None (Some [1, 2, 3]) = (add_to_history example_env (ascii ''t1'') (ascii ''t1'') (example_state 100 [])
          None (Some [1, 2, 3]))"
    by blast+
  have f: "files (add_to_history example_env (ascii ''t1'') (ascii ''t1'') (example_state 100 [])
          None (Some [1, 2, 3])) (thumb_path example_env [1, 2, 3]) = Some [1]"
    by (simp add: r(2) t)
  have hh: "history (add_to_history example_env (ascii ''t1'') (ascii ''t1'') (example_state 100 [])
          None (Some [1, 2, 3]))
       = [image_entry \<lparr>image_path = blob_path example_env [1, 2, 3],
                        preview_path = thumb_path example_env [1, 2, 3],
                        image_hash = [1, 2, 3]\<rparr> (ascii ''t1'')]"
    by (simp add: r(3) t h e deque_append_def)
  from 1 2 3 4 5 r(1) f hh r(4,5,6) show ?thesis by blast
qed

section \<open>Saving and loading\<close>

lemma default_type_typed: "get e ''type'' \<noteq> None \<Longrightarrow> default_type e = e"
  by (auto simp: default_type_def get_def)

lemma default_type_untyped:
  "get e ''type'' = None \<Longrightarrow>
   get (default_type e) ''type'' = Some (ascii ''text'')
   \<and> (\<forall>k. k \<noteq> ''type'' \<longrightarrow> get (default_type e) k = get e k)"
  by (auto simp: default_type_def get_def map_add_def split: option.splits)

lemma default_type_has_type: "get (default_type e) ''type'' \<noteq> None"
  by (cases "get e ''type''") (simp_all add: default_type_typed default_type_untyped)

lemma map_default_type_typed:
  "list_all (\<lambda>e. get e ''type'' \<noteq> None) h \<Longrightarrow> map default_type h = h"
  by (induction h) (simp_all add: default_type_typed)

lemma set_deque_append: "set (deque_append m d x) \<subseteq> insert x (set d)"
  by (cases d) (auto simp: deque_append_def)

lemma load_history_typed:
  "list_all (\<lambda>e. get e ''type'' \<noteq> None) (history s) \<Longrightarrow>
   list_all (\<lambda>e. get e ''type'' \<noteq> None) (history (load_history s))"
proof (cases "config_file s")
  case (Document d)
  have "set (history (load_history s))
      \<subseteq> set (map default_type (case doc_history d of None \<Rightarrow> [] | Some h \<Rightarrow> h))"
    using Document
      set_drop_subset [of _ "map default_type (case doc_history d of None \<Rightarrow> [] | Some h \<Rightarrow> h)"]
    by (simp only: load_history_document [OF Document])
  then have "\<forall>e \<in> set (history (load_history s)). \<exists>x. e = default_type x" by auto
  then show ?thesis using default_type_has_type by (auto simp: list_all_iff)
qed (simp_all add: load_history_def)

lemma add_to_history_typed:
  assumes "list_all (\<lambda>e. get e ''type'' \<noteq> None) (history s)"
  shows "list_all (\<lambda>e. get e ''type'' \<noteq> None) (history (add_to_history ev now ns s t d))"
proof -
  have "\<exists>e. get e ''type'' \<noteq> None
      \<and> set (history (add_to_history ev now ns s t d)) \<subseteq> insert e (set (history s))"
  proof (cases "history (add_to_history ev now ns s t d) = history s")
    case True
    have "get (text_entry [] []) ''type'' \<noteq> None" by simp
    with True show ?thesis by (intro exI [of _ "text_entry [] []"]) auto
  next
    case False
    then have "(\<exists>tx. history (add_to_history ev now ns s t d)
                  = deque_append (max_history s) (history s) (text_entry tx now))
        \<or> (\<exists>info. history (add_to_history ev now ns s t d)
                  = deque_append (max_history s) (history s) (image_entry info now))"
      by (auto simp: add_to_history_def split: option.splits prod.splits if_splits
          dest!: save_image_Some save_image_None)
    then show ?thesis
      using set_deque_append [of "max_history s" "history s"] get_text_entry(1) get_image_entry(1)
      by (metis option.distinct(1))
  qed
  then show ?thesis using assms by (auto simp: list_all_iff)
qed

text \<open>
  C5: for a history within the capacity, loading the file that a successful save wrote
  gives the history back entry by entry, each with its \<open>type\<close> defaulted: an entry that has
  a \<open>type\<close> comes back as it was, one without gets the type text and keeps every other
  field. Entries that were loaded or added always have a \<open>type\<close>, so for them the history
  comes back unchanged. The same holds for a fresh start on that file.
\<close>

theorem save_load_roundtrip:
  "(config_write_ok ev \<and> config_file s' = config_file (save_history ev now s)
      \<and> length (history s) \<le> max_history s' \<longrightarrow>
      history (load_history s') = map default_type (history s)
      \<and> (list_all (\<lambda>e. get e ''type'' \<noteq> None) (history s) \<longrightarrow>
           history (load_history s') = history s))
   \<and> (config_write_ok ev \<and> length (history s) \<le> m \<longrightarrow>
        history (init ev' t0 m False (config_file (save_history ev now s)) fs cb)
          = map default_type (history s))
   \<and> (get e ''type'' \<noteq> None \<longrightarrow> default_type e = e)
   \<and> (get e ''type'' = None \<longrightarrow>
        get (default_type e) ''type'' = Some (ascii ''text'')
        \<and> (\<forall>k. k \<noteq> ''type'' \<longrightarrow> get (default_type e) k = get e k))
   \<and> (list_all (\<lambda>e. get e ''type'' \<noteq> None) (history s) \<longrightarrow>
        list_all (\<lambda>e. get e ''type'' \<noteq> None) (history (load_history s))
        \<and> list_all (\<lambda>e. get e ''type'' \<noteq> None) (history (add_to_history ev now ns s t d)))"
proof (intro conjI impI)
  assume a: "config_write_ok ev \<and> config_file s' = config_file (save_history ev now s)
      \<and> length (history s) \<le> max_history s'"
  then have "config_file s'
      = Document \<lparr>doc_history = Some (history s), doc_last_update = Some now\<rparr>"
    by (simp add: save_history_def)
  from load_history_document [OF this] a
  show r: "history (load_history s') = map default_type (history s)" by simp
  assume "list_all (\<lambda>e. get e ''type'' \<noteq> None) (history s)"
  then show "history (load_history s') = history s" using r by (simp add: map_default_type_typed)
next
  assume a: "config_write_ok ev \<and> length (history s) \<le> m"
  let ?n = "new_state m (config_file (save_history ev now s)) fs cb"
  have "config_file ?n = Document \<lparr>doc_history = Some (history s), doc_last_update = Some now\<rparr>"
    using a by (simp add: save_history_def new_state_def)
  from load_history_document [OF this] a
  have "history (load_history ?n) = map default_type (history s)" by (simp add: new_state_def)
  then show "history (init ev' t0 m False (config_file (save_history ev now s)) fs cb)
          = map default_type (history s)"
    by (simp add: init_def)
next
  assume "get e ''type'' \<noteq> None"
  then show "default_type e = e" by (rule default_type_typed)
next
  assume "get e ''type'' = None"
  then show "get (default_type e) ''type'' = Some (ascii ''text'')"
    and "\<forall>k. k \<noteq> ''type'' \<longrightarrow> get (default_type e) k = get e k"
    using default_type_untyped [of e] by simp_all
next
  assume a: "list_all (\<lambda>e. get e ''type'' \<noteq> None) (history s)"
  then show "list_all (\<lambda>e. get e ''type'' \<noteq> None) (history (load_history s))"
    by (rule load_history_typed)
  from a show "list_all (\<lambda>e. get e ''type'' \<noteq> None) (history (add_to_history ev now ns s t d))"
    by (rule add_to_history_typed)
qed

theorem save_load_roundtrip_witness:
  "config_write_ok example_env
   \<and> length (history (example_state 100
        [text_entry (ascii ''A'') (ascii ''t1''), [(''text'', ascii ''B'')]])) \<le> 100
   \<and> history (init example_env (ascii ''t9'') 100 False
        (config_file (save_history example_env (ascii ''t3'')
           (example_state 100
              [text_entry (ascii ''A'') (ascii ''t1''), [(''text'', ascii ''B'')]])))
        Map.empty (ClipText []))
     = [text_entry (ascii ''A'') (ascii ''t1''),
        [(''text'', ascii ''B''), (''type'', ascii ''text'')]]"
proof -
  have 1: "config_write_ok example_env
   \<and> length (history (example_state 100
        [text_entry (ascii ''A'') (ascii ''t1''), [(''text'', ascii ''B'')]])) \<le> 100"
    by (simp add: example_env_def example_state_def new_state_def)
  from 1 save_load_roundtrip [of example_env _ "ascii ''t3''"
      "example_state 100 [text_entry (ascii ''A'') (ascii ''t1''), [(''text'', ascii ''B'')]]"
      100 example_env "ascii ''t9''" Map.empty "ClipText []"]
  have "history (init example_env (ascii ''t9'') 100 False
        (config_file (save_history example_env (ascii ''t3'')
           (example_state 100
              [text_entry (ascii ''A'') (ascii ''t1''), [(''text'', ascii ''B'')]])))
        Map.empty (ClipText []))
     = map default_type (history (example_state 100
              [text_entry (ascii ''A'') (ascii ''t1''), [(''text'', ascii ''B'')]]))"
    by blast
  then show ?thesis using 1
    by (simp add: example_state_def new_state_def default_type_def text_entry_def)
qed

section \<open>The filtered view\<close>

lemma update_history_list_view:
  "ui_created s \<Longrightarrow>
   filtered_history (update_history_list ev s q)
     = Some (if q \<noteq> [] then filter (entry_matches ev (str_lower ev q)) (history s)
             else history s)
   \<and> history_items (update_history_list ev s q)
     = Some (rev (if q \<noteq> [] then filter (entry_matches ev (str_lower ev q)) (history s)
                  else history s))
   \<and> current_filter (update_history_list ev s q) = Some q
   \<and> selected_index (update_history_list ev s q)
     = Some (if (if q \<noteq> [] then filter (entry_matches ev (str_lower ev q)) (history s)
                 else history s) = [] then None else Some 0)"
  by (simp add: update_history_list_def select_item_def)

lemma entry_matches_not_image:
  "get e ''type'' \<noteq> Some (ascii ''image'') \<Longrightarrow>
   entry_matches ev (str_lower ev q) e
     = (ci_contains ev (get_or e ''text'' []) q \<or> ci_contains ev (get_or e ''preview'' []) q)"
  by (simp add: entry_matches_def ci_contains_def)

lemma entry_matches_image_entry:
  "str_lower ev [] = [] \<Longrightarrow> str_lower ev q \<noteq> [] \<Longrightarrow>
   entry_matches ev (str_lower ev q) (image_entry info now)
     = (ci_contains ev image_placeholder q \<or> contains (str_lower ev q) image_keyword)"
  by (simp add: entry_matches_def ci_contains_def get_or_def get_def image_entry_def)

text \<open>
  C6, as amended: once the view exists, filtering with the empty query shows the whole
  history, newest first, with as many entries as the history has; filtering with any other
  query shows, newest first, exactly the entries that match it. An entry that is not an image
  entry matches when the query occurs, ignoring case, in its text or in its preview. An image
  entry matches when the query occurs, ignoring case, in its preview, which is the
  placeholder in brackets, or when the query in lower case contains the image keyword.
\<close>

theorem filter_view:
  "(ui_created s \<longrightarrow>
      history_items (update_history_list ev s []) = Some (rev (history s))
      \<and> view_len (update_history_list ev s []) = length (history s)
      \<and> (q \<noteq> [] \<longrightarrow>
           history_items (filter_history ev s q)
             = Some (rev (filter (entry_matches ev (str_lower ev q)) (history s)))))
   \<and> (get e ''type'' \<noteq> Some (ascii ''image'') \<longrightarrow>
        entry_matches ev (str_lower ev q) e
          = (ci_contains ev (get_or e ''text'' []) q
             \<or> ci_contains ev (get_or e ''preview'' []) q))
   \<and> (str_lower ev [] = [] \<and> str_lower ev q \<noteq> [] \<longrightarrow>
        entry_matches ev (str_lower ev q) (image_entry info now)
          = (ci_contains ev image_placeholder q \<or> contains (str_lower ev q) image_keyword))"
proof (intro conjI impI)
  assume u: "ui_created s"
  from update_history_list_view [OF u, of ev "[]"]
  show "history_items (update_history_list ev s []) = Some (rev (history s))" by simp
  then show "view_len (update_history_list ev s []) = length (history s)"
    by (simp add: view_len_def)
  assume "q \<noteq> []"
  with update_history_list_view [OF u, of ev q]
  show "history_items (filter_history ev s q)
             = Some (rev (filter (entry_matches ev (str_lower ev q)) (history s)))"
    by (simp add: filter_history_def)
next
  assume "get e ''type'' \<noteq> Some (ascii ''image'')"
  then show "entry_matches ev (str_lower ev q) e
          = (ci_contains ev (get_or e ''text'' []) q
             \<or> ci_contains ev (get_or e ''preview'' []) q)"
    by (rule entry_matches_not_image)
next
  assume "str_lower ev [] = [] \<and> str_lower ev q \<noteq> []"
  then show "entry_matches ev (str_lower ev q) (image_entry info now)
          = (ci_contains ev image_placeholder q \<or> contains (str_lower ev q) image_keyword)"
    by (simp add: entry_matches_image_entry)
qed

lemma example_lower [simp]: "str_lower example_env = map lower_cp"
  by (simp add: example_env_def)

theorem filter_view_witness:
  "ui_created ((example_state 100
        [text_entry (ascii ''Ab'') (ascii ''t1''), text_entry (ascii ''cd'') (ascii ''t2''),
         image_entry \<lparr>image_path = ascii ''/img/x.png'', preview_path = ascii ''/img/x.png'',
                      image_hash = ascii ''x''\<rparr> (ascii ''t3'')])\<lparr>ui_created := True\<rparr>)
   \<and> ascii ''a'' \<noteq> []
   \<and> history_items (filter_history example_env
        ((example_state 100
          [text_entry (ascii ''Ab'') (ascii ''t1''), text_entry (ascii ''cd'') (ascii ''t2''),
           image_entry \<lparr>image_path = ascii ''/img/x.png'', preview_path = ascii ''/img/x.png'',
                        image_hash = ascii ''x''\<rparr> (ascii ''t3'')])\<lparr>ui_created := True\<rparr>)
        (ascii ''a''))
     = Some [text_entry (ascii ''Ab'') (ascii ''t1'')]"
proof -
  have 1: "ui_created ((example_state 100
        [text_entry (ascii ''Ab'') (ascii ''t1''), text_entry (ascii ''cd'') (ascii ''t2''),
         image_entry \<lparr>image_path = ascii ''/img/x.png'', preview_path = ascii ''/img/x.png'',
                      image_hash = ascii ''x''\<rparr> (ascii ''t3'')])\<lparr>ui_created := True\<rparr>)"
    by simp
  have 2: "ascii ''a'' \<noteq> []" by (simp add: ascii_def)
  from 1 2 filter_view [of "(example_state 100
        [text_entry (ascii ''Ab'') (ascii ''t1''), text_entry (ascii ''cd'') (ascii ''t2''),
         image_entry \<lparr>image_path = ascii ''/img/x.png'', preview_path = ascii ''/img/x.png'',
                      image_hash = ascii ''x''\<rparr> (ascii ''t3'')])\<lparr>ui_created := True\<rparr>"
      example_env "ascii ''a''"]
  have "history_items (filter_history example_env
        ((example_state 100
          [text_entry (ascii ''Ab'') (ascii ''t1''), text_entry (ascii ''cd'') (ascii ''t2''),
           image_entry \<lparr>image_path = ascii ''/img/x.png'', preview_path = ascii ''/img/x.png'',
                        image_hash = ascii ''x''\<rparr> (ascii ''t3'')])\<lparr>ui_created := True\<rparr>)
        (ascii ''a''))
     = Some (rev (filter (entry_matches example_env (str_lower example_env (ascii ''a'')))
         (history ((example_state 100
          [text_entry (ascii ''Ab'') (ascii ''t1''), text_entry (ascii ''cd'') (ascii ''t2''),
           image_entry \<lparr>image_path = ascii ''/img/x.png'', preview_path = ascii ''/img/x.png'',
                        image_hash = ascii ''x''\<rparr> (ascii ''t3'')])\<lparr>ui_created := True\<rparr>))))"
    by blast
  then show ?thesis using 1 2
    by (simp add: example_state_def new_state_def entry_matches_def get_or_def get_def
        text_entry_def image_entry_def ascii_def lower_cp_def image_placeholder_def
        image_keyword_def)
qed

theorem filter_image_counterexample:
  "history_items (filter_history example_env
        ((example_state 100
          [image_entry \<lparr>image_path = ascii ''/img/x.png'', preview_path = ascii ''/img/x.png'',
                        image_hash = ascii ''x''\<rparr> (ascii ''t3'')])\<lparr>ui_created := True\<rparr>)
        (ascii ''[''))
     = Some [image_entry \<lparr>image_path = ascii ''/img/x.png'', preview_path = ascii ''/img/x.png'',
                           image_hash = ascii ''x''\<rparr> (ascii ''t3'')]
   \<and> \<not> contains (str_lower example_env (ascii ''['')) image_keyword
   \<and> \<not> contains image_keyword (str_lower example_env (ascii ''[''))
   \<and> history_items (filter_history example_env
        ((example_state 100
          [image_entry \<lparr>image_path = ascii ''/img/x.png'', preview_path = ascii ''/img/x.png'',
                        image_hash = ascii ''x''\<rparr> (ascii ''t3'')])\<lparr>ui_created := True\<rparr>)
        (image_keyword @ ascii ''!''))
     = Some [image_entry \<lparr>image_path = ascii ''/img/x.png'', preview_path = ascii ''/img/x.png'',
                           image_hash = ascii ''x''\<rparr> (ascii ''t3'')]
   \<and> \<not> ci_contains example_env image_placeholder (image_keyword @ ascii ''!'')
   \<and> \<not> ci_contains example_env image_keyword (image_keyword @ ascii ''!'')"
  by (simp add: filter_history_def update_history_list_def select_item_def example_state_def
      new_state_def entry_matches_def get_or_def get_def image_entry_def ascii_def lower_cp_def
      image_placeholder_def image_keyword_def ci_contains_def)

section \<open>Moving the cursor\<close>

lemma navigate_empty: "view_len s = 0 \<Longrightarrow> navigate_list s direction = s"
  by (cases "history_items s") (simp_all add: navigate_list_def view_len_def)

lemma clamp_eq:
  "0 \<le> i \<Longrightarrow> i < n \<Longrightarrow>
   (if i + d < 0 then 0 else if i + d \<ge> n then n - 1 else i + d) = max 0 (min (n - 1) (i + d))"
  for i d n :: int
  by (simp add: max_def min_def)

lemma navigate_list_eq:
  assumes "history_items s = Some items" "items \<noteq> []" "selected_index s = Some (Some i)"
    "0 \<le> i" "i < int (length items)"
  shows "navigate_list s direction =
     (if max 0 (min (int (length items) - 1) (i + direction)) \<noteq> i
      then s\<lparr>selected_index :=
               Some (Some (max 0 (min (int (length items) - 1) (i + direction))))\<rparr>
      else s)"
proof -
  have "navigate_list s direction =
     (if (if i + direction < 0 then 0
          else if i + direction \<ge> int (length items) then int (length items) - 1
          else i + direction) \<noteq> i
      then select_item s (if i + direction < 0 then 0
          else if i + direction \<ge> int (length items) then int (length items) - 1
          else i + direction)
      else s)"
    using assms(1-3) by (simp add: navigate_list_def Let_def)
  also have "\<dots> = (if max 0 (min (int (length items) - 1) (i + direction)) \<noteq> i
      then select_item s (max 0 (min (int (length items) - 1) (i + direction)))
      else s)"
    by (simp only: clamp_eq [OF assms(4,5)])
  finally show ?thesis using assms(1,2) by (simp add: select_item_def)
qed

lemma update_history_list_view_ok: "ui_created s \<Longrightarrow> view_ok (update_history_list ev s q)"
proof -
  assume u: "ui_created s"
  let ?f = "if q \<noteq> [] then filter (entry_matches ev (str_lower ev q)) (history s)
            else history s"
  from update_history_list_view [OF u, of ev q]
  have h: "history_items (update_history_list ev s q) = Some (rev ?f)"
    and c: "selected_index (update_history_list ev s q)
              = Some (if ?f = [] then None else Some 0)"
    by blast+
  show ?thesis
  proof (cases "?f = []")
    case True
    then show ?thesis using h by (simp add: view_ok_def view_len_def)
  next
    case False
    then have "cursor (update_history_list ev s q) = Some 0" using c by (simp add: cursor_def)
    moreover have "view_len (update_history_list ev s q) = length ?f"
      using h by (simp add: view_len_def)
    ultimately show ?thesis using False by (simp add: view_ok_def)
  qed
qed

lemma navigate_step:
  assumes d: "direction = 1 \<or> direction = - 1" and ok: "view_ok s" and ne: "view_len s \<noteq> 0"
  shows "\<exists>i. cursor s = Some i \<and> 0 \<le> i \<and> i < int (view_len s)
           \<and> 0 \<le> max 0 (min (int (view_len s) - 1) (i + direction))
           \<and> max 0 (min (int (view_len s) - 1) (i + direction)) < int (view_len s)
           \<and> \<bar>max 0 (min (int (view_len s) - 1) (i + direction)) - i\<bar> \<le> 1
           \<and> cursor (navigate_list s direction)
               = Some (max 0 (min (int (view_len s) - 1) (i + direction)))
           \<and> navigate_list s direction
               = s\<lparr>selected_index :=
                     Some (Some (max 0 (min (int (view_len s) - 1) (i + direction))))\<rparr>"
proof -
  from ne obtain items where it: "history_items s = Some items" "items \<noteq> []"
    by (cases "history_items s") (simp_all add: view_len_def)
  have vl: "view_len s = length items" using it by (simp add: view_len_def)
  from ok ne obtain i where i: "cursor s = Some i" "0 \<le> i" "i < int (view_len s)"
    by (cases "cursor s") (simp_all add: view_ok_def)
  from i(1) have sel: "selected_index s = Some (Some i)"
    by (cases "selected_index s") (simp_all add: cursor_def)
  let ?j = "max 0 (min (int (view_len s) - 1) (i + direction))"
  have j: "0 \<le> ?j" "?j < int (view_len s)" "\<bar>?j - i\<bar> \<le> 1"
    using d i(2,3) by (auto simp: max_def min_def)
  have n: "navigate_list s direction
      = (if ?j \<noteq> i then s\<lparr>selected_index := Some (Some ?j)\<rparr> else s)"
    using navigate_list_eq [OF it sel i(2), of direction] i(3) by (simp add: vl)
  have eq: "navigate_list s direction = s\<lparr>selected_index := Some (Some ?j)\<rparr>"
  proof (cases "?j = i")
    case True
    then have "s\<lparr>selected_index := Some (Some ?j)\<rparr> = s" using sel by simp
    with n True show ?thesis by simp
  next
    case False
    with n show ?thesis by simp
  qed
  then have "cursor (navigate_list s direction) = Some ?j" by (simp add: cursor_def)
  with i j eq show ?thesis by blast
qed

text \<open>
  C7: in a view state (the cursor indexes into the view, as it does after every filtering)
  and for a direction of plus or minus one, navigating changes nothing but the cursor, moves
  it by at most one position to \<open>max 0 (min (len - 1) (cursor + direction))\<close>, which lies in
  the view; at the first entry a step up and at the last entry a step down leave it where it
  is; on an empty view nothing changes at all.
\<close>

theorem navigate_clamps:
  "((direction = 1 \<or> direction = - 1) \<and> view_ok s \<longrightarrow>
      view_ok (navigate_list s direction)
      \<and> history_items (navigate_list s direction) = history_items s
      \<and> navigate_list s direction
          = s\<lparr>selected_index := selected_index (navigate_list s direction)\<rparr>
      \<and> (view_len s = 0 \<longrightarrow> navigate_list s direction = s)
      \<and> (view_len s \<noteq> 0 \<longrightarrow>
           (\<exists>i j. cursor s = Some i \<and> cursor (navigate_list s direction) = Some j
              \<and> 0 \<le> j \<and> j < int (view_len s) \<and> \<bar>j - i\<bar> \<le> 1
              \<and> j = max 0 (min (int (view_len s) - 1) (i + direction))
              \<and> (i = 0 \<and> direction = - 1 \<longrightarrow> j = 0)
              \<and> (i = int (view_len s) - 1 \<and> direction = 1 \<longrightarrow> j = int (view_len s) - 1))))
   \<and> (ui_created s \<longrightarrow> view_ok (update_history_list ev s q))"
proof (intro conjI impI)
  assume a: "(direction = 1 \<or> direction = - 1) \<and> view_ok s"
  then have d: "direction = 1 \<or> direction = - 1" and ok: "view_ok s" by simp_all
  show "navigate_list s direction
          = s\<lparr>selected_index := selected_index (navigate_list s direction)\<rparr>"
  proof (cases "view_len s = 0")
    case True
    then show ?thesis by (simp add: navigate_empty)
  next
    case False
    from navigate_step [OF d ok False] obtain j where
      "navigate_list s direction = s\<lparr>selected_index := Some (Some j)\<rparr>" by blast
    then show ?thesis by simp
  qed
  then have "history_items (navigate_list s direction)
      = history_items (s\<lparr>selected_index := selected_index (navigate_list s direction)\<rparr>)"
    by simp
  then show hi: "history_items (navigate_list s direction) = history_items s" by simp
  show "view_ok (navigate_list s direction)"
  proof (cases "view_len s = 0")
    case True
    then show ?thesis using ok by (simp add: navigate_empty)
  next
    case False
    from navigate_step [OF d ok False] obtain i where
      i: "0 \<le> max 0 (min (int (view_len s) - 1) (i + direction))"
         "max 0 (min (int (view_len s) - 1) (i + direction)) < int (view_len s)"
         "cursor (navigate_list s direction)
               = Some (max 0 (min (int (view_len s) - 1) (i + direction)))"
      by blast
    have "view_len (navigate_list s direction) = view_len s" using hi by (simp add: view_len_def)
    with i show ?thesis by (simp add: view_ok_def)
  qed
  { assume "view_len s = 0"
    then show "navigate_list s direction = s" by (rule navigate_empty) }
  { assume ne: "view_len s \<noteq> 0"
    from navigate_step [OF d ok ne] obtain i where
      i: "cursor s = Some i" "0 \<le> i" "i < int (view_len s)"
         "0 \<le> max 0 (min (int (view_len s) - 1) (i + direction))"
         "max 0 (min (int (view_len s) - 1) (i + direction)) < int (view_len s)"
         "\<bar>max 0 (min (int (view_len s) - 1) (i + direction)) - i\<bar> \<le> 1"
         "cursor (navigate_list s direction)
               = Some (max 0 (min (int (view_len s) - 1) (i + direction)))"
      by blast
    have e1: "i = 0 \<and> direction = - 1 \<longrightarrow>
        max 0 (min (int (view_len s) - 1) (i + direction)) = 0"
      using i(3) by (simp add: max_def min_def)
    have e2: "i = int (view_len s) - 1 \<and> direction = 1 \<longrightarrow>
        max 0 (min (int (view_len s) - 1) (i + direction)) = int (view_len s) - 1"
      using i(2) by (simp add: max_def min_def)
    show "\<exists>i j. cursor s = Some i \<and> cursor (navigate_list s direction) = Some j
              \<and> 0 \<le> j \<and> j < int (view_len s) \<and> \<bar>j - i\<bar> \<le> 1
              \<and> j = max 0 (min (int (view_len s) - 1) (i + direction))
              \<and> (i = 0 \<and> direction = - 1 \<longrightarrow> j = 0)
              \<and> (i = int (view_len s) - 1 \<and> direction = 1 \<longrightarrow> j = int (view_len s) - 1)"
      using i e1 e2 by blast }
next
  assume "ui_created s"
  then show "view_ok (update_history_list ev s q)" by (rule update_history_list_view_ok)
qed

theorem navigate_clamps_witness:
  "view_ok ((example_state 100 [])\<lparr>history_items :=
          Some [text_entry (ascii ''C'') (ascii ''t3''), text_entry (ascii ''B'') (ascii ''t2''),
                text_entry (ascii ''A'') (ascii ''t1'')],
        selected_index := Some (Some 2)\<rparr>)
   \<and> view_len ((example_state 100 [])\<lparr>history_items :=
          Some [text_entry (ascii ''C'') (ascii ''t3''), text_entry (ascii ''B'') (ascii ''t2''),
                text_entry (ascii ''A'') (ascii ''t1'')],
        selected_index := Some (Some 2)\<rparr>) \<noteq> 0
   \<and> cursor ((example_state 100 [])\<lparr>history_items :=
          Some [text_entry (ascii ''C'') (ascii ''t3''), text_entry (ascii ''B'') (ascii ''t2''),
                text_entry (ascii ''A'') (ascii ''t1'')],
        selected_index := Some (Some 2)\<rparr>) = Some 2
   \<and> cursor (navigate_list ((example_state 100 [])\<lparr>history_items :=
          Some [text_entry (ascii ''C'') (ascii ''t3''), text_entry (ascii ''B'') (ascii ''t2''),
                text_entry (ascii ''A'') (ascii ''t1'')],
        selected_index := Some (Some 2)\<rparr>) 1) = Some 2
   \<and> cursor (navigate_list ((example_state 100 [])\<lparr>history_items :=
          Some [text_entry (ascii ''C'') (ascii ''t3''), text_entry (ascii ''B'') (ascii ''t2''),
                text_entry (ascii ''A'') (ascii ''t1'')],
        selected_index := Some (Some 2)\<rparr>) (- 1)) = Some 1
   \<and> view_ok (navigate_list ((example_state 100 [])\<lparr>history_items :=
          Some [text_entry (ascii ''C'') (ascii ''t3''), text_entry (ascii ''B'') (ascii ''t2''),
                text_entry (ascii ''A'') (ascii ''t1'')],
        selected_index := Some (Some 2)\<rparr>) 1)"
proof -
  have 1: "view_ok ((example_state 100 [])\<lparr>history_items :=
          Some [text_entry (ascii ''C'') (ascii ''t3''), text_entry (ascii ''B'') (ascii ''t2''),
                text_entry (ascii ''A'') (ascii ''t1'')],
        selected_index := Some (Some 2)\<rparr>)" "view_len ((example_state 100 [])\<lparr>history_items :=
          Some [text_entry (ascii ''C'') (ascii ''t3''), text_entry (ascii ''B'') (ascii ''t2''),
                text_entry (ascii ''A'') (ascii ''t1'')],
        selected_index := Some (Some 2)\<rparr>) = 3" "cursor ((example_state 100 [])\<lparr>history_items :=
          Some [text_entry (ascii ''C'') (ascii ''t3''), text_entry (ascii ''B'') (ascii ''t2''),
                text_entry (ascii ''A'') (ascii ''t1'')],
        selected_index := Some (Some 2)\<rparr>) = Some 2"
    by (simp_all add: view_ok_def view_len_def cursor_def)
  from 1 navigate_clamps [of 1 "((example_state 100 [])\<lparr>history_items :=
          Some [text_entry (ascii ''C'') (ascii ''t3''), text_entry (ascii ''B'') (ascii ''t2''),
                text_entry (ascii ''A'') (ascii ''t1'')],
        selected_index := Some (Some 2)\<rparr>)"]
  have a: "view_ok (navigate_list ((example_state 100 [])\<lparr>history_items :=
          Some [text_entry (ascii ''C'') (ascii ''t3''), text_entry (ascii ''B'') (ascii ''t2''),
                text_entry (ascii ''A'') (ascii ''t1'')],
        selected_index := Some (Some 2)\<rparr>) 1)
     \<and> (\<exists>i j. cursor ((example_state 100 [])\<lparr>history_items :=
          Some [text_entry (ascii ''C'') (ascii ''t3''), text_entry (ascii ''B'') (ascii ''t2''),
                text_entry (ascii ''A'') (ascii ''t1'')],
        selected_index := Some (Some 2)\<rparr>) = Some i \<and> cursor (navigate_list ((example_state 100 [])\<lparr>history_items :=
          Some [text_entry (ascii ''C'') (ascii ''t3''), text_entry (ascii ''B'') (ascii ''t2''),
                text_entry (ascii ''A'') (ascii ''t1'')],
        selected_index := Some (Some 2)\<rparr>) 1) = Some j
              \<and> j = max 0 (min (int (view_len ((example_state 100 [])\<lparr>history_items :=
          Some [text_entry (ascii ''C'') (ascii ''t3''), text_entry (ascii ''B'') (ascii ''t2''),
                text_entry (ascii ''A'') (ascii ''t1'')],
        selected_index := Some (Some 2)\<rparr>)) - 1) (i + 1)))"
    by auto
  from 1 navigate_clamps [of "- 1" "((example_state 100 [])\<lparr>history_items :=
          Some [text_entry (ascii ''C'') (ascii ''t3''), text_entry (ascii ''B'') (ascii ''t2''),
                text_entry (ascii ''A'') (ascii ''t1'')],
        selected_index := Some (Some 2)\<rparr>)"]
  have b: "\<exists>i j. cursor ((example_state 100 [])\<lparr>history_items :=
          Some [text_entry (ascii ''C'') (ascii ''t3''), text_entry (ascii ''B'') (ascii ''t2''),
                text_entry (ascii ''A'') (ascii ''t1'')],
        selected_index := Some (Some 2)\<rparr>) = Some i \<and> cursor (navigate_list ((example_state 100 [])\<lparr>history_items :=
          Some [text_entry (ascii ''C'') (ascii ''t3''), text_entry (ascii ''B'') (ascii ''t2''),
                text_entry (ascii ''A'') (ascii ''t1'')],
        selected_index := Some (Some 2)\<rparr>) (- 1)) = Some j
              \<and> j = max 0 (min (int (view_len ((example_state 100 [])\<lparr>history_items :=
          Some [text_entry (ascii ''C'') (ascii ''t3''), text_entry (ascii ''B'') (ascii ''t2''),
                text_entry (ascii ''A'') (ascii ''t1'')],
        selected_index := Some (Some 2)\<rparr>)) - 1) (i + - 1))"
    by auto
  from a 1 have "cursor (navigate_list ((example_state 100 [])\<lparr>history_items :=
          Some [text_entry (ascii ''C'') (ascii ''t3''), text_entry (ascii ''B'') (ascii ''t2''),
                text_entry (ascii ''A'') (ascii ''t1'')],
        selected_index := Some (Some 2)\<rparr>) 1) = Some 2" by auto
  moreover from b 1 have "cursor (navigate_list ((example_state 100 [])\<lparr>history_items :=
          Some [text_entry (ascii ''C'') (ascii ''t3''), text_entry (ascii ''B'') (ascii ''t2''),
                text_entry (ascii ''A'') (ascii ''t1'')],
        selected_index := Some (Some 2)\<rparr>) (- 1)) = Some 1" by auto
  ultimately show ?thesis using a 1 by simp
qed

section \<open>The guard after opening the window\<close>

lemma insert_guarded:
  "window_just_opened s \<or> now - window_open_time s < 1 / 2 \<Longrightarrow>
   insert_selected_by_index ev s now index = Returns s"
  by (simp add: insert_selected_by_index_def)

lemma select_item_open_time [simp]:
  "window_open_time (select_item s i) = window_open_time s"
  by (cases "history_items s") (simp_all add: select_item_def)

lemma update_history_list_open_time [simp]:
  "window_open_time (update_history_list ev s q) = window_open_time s"
  by (simp add: update_history_list_def)

lemma show_history_window_open_time:
  "\<not> history_window s \<Longrightarrow> window_open_time (show_history_window ev s t0) = t0"
  by (simp add: show_history_window_def create_history_ui_def)

lemma show_history_window_again:
  "history_window s \<Longrightarrow>
   window_open_time (show_history_window ev s t0) = window_open_time s"
  by (simp add: show_history_window_def)

lemma navigate_list_open_time:
  "window_open_time (navigate_list s direction) = window_open_time s"
proof (cases "history_items s")
  case None
  then show ?thesis by (simp add: navigate_list_def)
next
  case (Some items)
  then show ?thesis by (simp add: navigate_list_def Let_def)
qed

lemma save_history_open_time [simp]:
  "window_open_time (save_history ev now s) = window_open_time s"
  by (simp add: save_history_def)

lemma add_to_history_open_time:
  "window_open_time (add_to_history ev now ns s t d) = window_open_time s"
proof -
  obtain r s1 where r: "save_image_from_clipboard ev s d = (r, s1)"
    by (cases "save_image_from_clipboard ev s d") auto
  then have "window_open_time s1 = window_open_time s"
    by (auto simp: save_image_from_clipboard_def split: option.splits if_splits)
  with r show ?thesis
    by (cases r) (auto simp: add_to_history_def split: option.splits)
qed

text \<open>
  C8: a commit whose clock reading is less than half a second after the reading stored when
  the window was opened returns at once: the state, and with it the clipboard, the count of
  paste threads, the history and the view, is as before, and nothing is raised. The same holds
  while the just-opened flag is set. Opening a window stores the reading; showing an open
  window again, filtering, navigating, adding to the history and clearing the flag leave it
  alone. A commit 100 ms after opening does nothing.
\<close>

theorem commit_guard:
  "(now - window_open_time s < 1 / 2 \<longrightarrow>
      insert_selected_by_index ev s now index = Returns s
      \<and> insert_selected ev s now = Returns s)
   \<and> (window_just_opened s \<longrightarrow>
        insert_selected_by_index ev s now index = Returns s
        \<and> insert_selected ev s now = Returns s)
   \<and> (\<not> history_window s \<longrightarrow> window_open_time (show_history_window ev s t0) = t0)
   \<and> (history_window s \<longrightarrow>
        window_open_time (show_history_window ev s t0) = window_open_time s)
   \<and> window_open_time (filter_history ev s q) = window_open_time s
   \<and> window_open_time (navigate_list s direction) = window_open_time s
   \<and> window_open_time (add_to_history ev ts ns s t d) = window_open_time s
   \<and> window_open_time (clear_window_flag s) = window_open_time s
   \<and> (\<not> history_window s \<longrightarrow>
        insert_selected_by_index ev (clear_window_flag (show_history_window ev s t0))
            (t0 + 1 / 10) index
          = Returns (clear_window_flag (show_history_window ev s t0)))"
proof (intro conjI impI)
  assume "now - window_open_time s < 1 / 2"
  then show "insert_selected_by_index ev s now index = Returns s"
    and "insert_selected ev s now = Returns s"
    by (simp_all add: insert_guarded insert_selected_def)
next
  assume "window_just_opened s"
  then show "insert_selected_by_index ev s now index = Returns s"
    and "insert_selected ev s now = Returns s"
    by (simp_all add: insert_guarded insert_selected_def)
next
  assume "\<not> history_window s"
  then show "window_open_time (show_history_window ev s t0) = t0"
    by (rule show_history_window_open_time)
next
  assume "history_window s"
  then show "window_open_time (show_history_window ev s t0) = window_open_time s"
    by (rule show_history_window_again)
next
  show "window_open_time (filter_history ev s q) = window_open_time s"
    by (simp add: filter_history_def)
  show "window_open_time (navigate_list s direction) = window_open_time s"
    by (rule navigate_list_open_time)
  show "window_open_time (add_to_history ev ts ns s t d) = window_open_time s"
    by (rule add_to_history_open_time)
  show "window_open_time (clear_window_flag s) = window_open_time s"
    by (simp add: clear_window_flag_def)
next
  assume "\<not> history_window s"
  then have "window_open_time (clear_window_flag (show_history_window ev s t0)) = t0"
    by (simp add: clear_window_flag_def show_history_window_open_time)
  then have "t0 + 1 / 10 - window_open_time (clear_window_flag (show_history_window ev s t0))
      < 1 / 2"
    by simp
  then show "insert_selected_by_index ev (clear_window_flag (show_history_window ev s t0))
            (t0 + 1 / 10) index
          = Returns (clear_window_flag (show_history_window ev s t0))"
    by (simp add: insert_guarded)
qed

theorem commit_guard_witness:
  "1000 + 1 / 10
     - window_open_time ((example_state 100 [text_entry (ascii ''A'') (ascii ''t1'')])
         \<lparr>history_window := True, window_open_time := 1000,
          filtered_history := Some [text_entry (ascii ''A'') (ascii ''t1'')],
          history_items := Some [text_entry (ascii ''A'') (ascii ''t1'')],
          selected_index := Some (Some 0)\<rparr>) < 1 / 2
   \<and> insert_selected_by_index example_env
        ((example_state 100 [text_entry (ascii ''A'') (ascii ''t1'')])
         \<lparr>history_window := True, window_open_time := 1000,
          filtered_history := Some [text_entry (ascii ''A'') (ascii ''t1'')],
          history_items := Some [text_entry (ascii ''A'') (ascii ''t1'')],
          selected_index := Some (Some 0)\<rparr>) (1000 + 1 / 10) (Some 0)
      = Returns ((example_state 100 [text_entry (ascii ''A'') (ascii ''t1'')])
         \<lparr>history_window := True, window_open_time := 1000,
          filtered_history := Some [text_entry (ascii ''A'') (ascii ''t1'')],
          history_items := Some [text_entry (ascii ''A'') (ascii ''t1'')],
          selected_index := Some (Some 0)\<rparr>)"
  using commit_guard [of "1000 + 1 / 10"
      "(example_state 100 [text_entry (ascii ''A'') (ascii ''t1'')])
         \<lparr>history_window := True, window_open_time := 1000,
          filtered_history := Some [text_entry (ascii ''A'') (ascii ''t1'')],
          history_items := Some [text_entry (ascii ''A'') (ascii ''t1'')],
          selected_index := Some (Some 0)\<rparr>" example_env "Some 0"]
  by simp

section \<open>Deleting the selected entry\<close>

lemma dict_eq_refl [simp]: "dict_eq e e"
  by (simp add: dict_eq_def list_all_iff)

lemma remove_first_decomp:
  "list_ex P xs \<Longrightarrow>
   \<exists>pre x post. xs = pre @ x # post \<and> P x \<and> list_all (\<lambda>y. \<not> P y) pre
      \<and> remove_first P xs = Some (pre @ post)"
proof (induction xs)
  case Nil
  then show ?case by simp
next
  case (Cons a xs)
  show ?case
  proof (cases "P a")
    case True
    then have "a # xs = [] @ a # xs \<and> P a \<and> list_all (\<lambda>y. \<not> P y) []
        \<and> remove_first P (a # xs) = Some ([] @ xs)" by simp
    then show ?thesis by blast
  next
    case False
    with Cons.prems have "list_ex P xs" by simp
    from Cons.IH [OF this] obtain pre x post where
      d: "xs = pre @ x # post" "P x" "list_all (\<lambda>y. \<not> P y) pre"
         "remove_first P xs = Some (pre @ post)" by blast
    then have "a # xs = (a # pre) @ x # post \<and> P x \<and> list_all (\<lambda>y. \<not> P y) (a # pre)
        \<and> remove_first P (a # xs) = Some ((a # pre) @ post)"
      using False by simp
    then show ?thesis by blast
  qed
qed

lemma remove_first_at:
  "p < length xs \<Longrightarrow> P (xs ! p) \<Longrightarrow> list_all (\<lambda>y. \<not> P y) (take p xs) \<Longrightarrow>
   remove_first P xs = Some (remove_at p xs)"
proof (induction xs arbitrary: p)
  case Nil
  then show ?case by simp
next
  case (Cons a xs)
  show ?case
  proof (cases p)
    case 0
    with Cons.prems show ?thesis by (simp add: remove_at_def)
  next
    case (Suc k)
    with Cons.prems have "remove_first P xs = Some (remove_at k xs)"
      by (intro Cons.IH) simp_all
    with Cons.prems Suc show ?thesis by (simp add: remove_at_def)
  qed
qed

lemma remove_entry_files_cases:
  "files (remove_entry_files ev s e) p = files s p
   \<or> (files (remove_entry_files ev s e) p = None
       \<and> (get e ''image_path'' = Some p \<or> get e ''preview_path'' = Some p))"
proof (cases "get e ''image_path''")
  case None
  then show ?thesis
    by (cases "get e ''preview_path''")
      (simp_all add: remove_entry_files_def Let_def truthy_def)
next
  case (Some a)
  then show ?thesis
    by (cases "get e ''preview_path''")
      (simp_all add: remove_entry_files_def Let_def truthy_def)
qed

lemma remove_entry_files_image:
  assumes "get e ''image_path'' = Some p" "p \<noteq> []" "remove_ok ev p"
  shows "files (remove_entry_files ev s e) p = None"
  using assms
  by (cases "get e ''preview_path''")
    (auto simp: remove_entry_files_def Let_def truthy_def)

lemma remove_entry_files_preview:
  assumes "get e ''preview_path'' = Some p" "p \<noteq> []" "remove_ok ev p"
  shows "files (remove_entry_files ev s e) p = None"
proof (cases "get e ''image_path''")
  case None
  then show ?thesis using assms by (auto simp: remove_entry_files_def Let_def truthy_def)
next
  case (Some a)
  then show ?thesis using assms
    by (cases "a = p") (auto simp: remove_entry_files_def Let_def truthy_def)
qed

lemma selected_entry_Some:
  "selected_entry s = Some entry \<Longrightarrow>
   \<exists>i. selected_index s = Some (Some i) \<and> cursor s = Some i \<and> 0 \<le> i
     \<and> i < int (length (case filtered_history s of None \<Rightarrow> history s | Some f \<Rightarrow> f))
     \<and> entry = (case filtered_history s of None \<Rightarrow> history s | Some f \<Rightarrow> f)
                 ! (length (case filtered_history s of None \<Rightarrow> history s | Some f \<Rightarrow> f)
                    - 1 - nat i)"
  by (auto simp: selected_entry_def cursor_def Let_def split: option.splits if_splits)

lemma selected_entry_None:
  "selected_entry s = None \<Longrightarrow> delete_selected ev now s = s"
  by (auto simp: selected_entry_def cursor_def delete_selected_def Let_def
      split: option.splits if_splits)

lemma delete_selected_absent:
  "selected_entry s = Some entry \<Longrightarrow> \<not> list_ex (\<lambda>x. dict_eq x entry) (history s) \<Longrightarrow>
   delete_selected ev now s = s"
  by (auto simp: selected_entry_def cursor_def delete_selected_def Let_def
      split: option.splits if_splits)

lemma delete_selected_unfold:
  assumes "selected_index s = Some (Some i)" "0 \<le> i" "i < int (length fh)"
    "(case filtered_history s of None \<Rightarrow> history s | Some f \<Rightarrow> f) = fh"
    "fh ! (length fh - 1 - nat i) = entry"
    "list_ex (\<lambda>x. dict_eq x entry) (history s)"
  shows "delete_selected ev now s =
     (let s1 = (if get entry ''type'' = Some (ascii ''image'')
                then remove_entry_files ev s entry else s);
          s2 = s1\<lparr>history :=
                 (case remove_first (\<lambda>x. dict_eq x entry) (history s1) of
                    None \<Rightarrow> history s1 | Some h \<Rightarrow> h)\<rparr>;
          s3 = save_history ev now s2
      in update_history_list ev s3 (case current_filter s3 of None \<Rightarrow> [] | Some f \<Rightarrow> f))"
  by (simp only: delete_selected_def assms option.case Let_def simp_thms if_True)

lemma delete_selected_present:
  assumes "selected_entry s = Some entry" "list_ex (\<lambda>x. dict_eq x entry) (history s)"
  shows "history (delete_selected ev now s)
           = (case remove_first (\<lambda>x. dict_eq x entry) (history s) of
                None \<Rightarrow> history s | Some h \<Rightarrow> h)
         \<and> files (delete_selected ev now s)
           = files (if get entry ''type'' = Some (ascii ''image'')
                    then remove_entry_files ev s entry else s)
         \<and> (config_write_ok ev \<longrightarrow>
              config_file (delete_selected ev now s)
                = Document \<lparr>doc_history = Some (history (delete_selected ev now s)),
                            doc_last_update = Some now\<rparr>)"
proof -
  from selected_entry_Some [OF assms(1)] obtain i where
    i: "selected_index s = Some (Some i)" "0 \<le> i"
       "i < int (length (case filtered_history s of None \<Rightarrow> history s | Some f \<Rightarrow> f))"
       "entry = (case filtered_history s of None \<Rightarrow> history s | Some f \<Rightarrow> f)
                 ! (length (case filtered_history s of None \<Rightarrow> history s | Some f \<Rightarrow> f)
                    - 1 - nat i)"
    by blast
  let ?s1 = "if get entry ''type'' = Some (ascii ''image'')
             then remove_entry_files ev s entry else s"
  let ?s2 = "?s1\<lparr>history := (case remove_first (\<lambda>x. dict_eq x entry) (history ?s1) of
                                None \<Rightarrow> history ?s1 | Some h \<Rightarrow> h)\<rparr>"
  let ?s3 = "save_history ev now ?s2"
  have d: "delete_selected ev now s
      = update_history_list ev ?s3 (case current_filter ?s3 of None \<Rightarrow> [] | Some f \<Rightarrow> f)"
    using delete_selected_unfold [OF i(1,2,3) refl i(4) [symmetric] assms(2), of ev now]
    by (simp only: Let_def)
  have h1: "history ?s1 = history s" by simp
  have "history (delete_selected ev now s) = history ?s2" by (simp only: d) simp
  then have 1: "history (delete_selected ev now s)
           = (case remove_first (\<lambda>x. dict_eq x entry) (history s) of
                None \<Rightarrow> history s | Some h \<Rightarrow> h)"
    by (simp add: h1 split: option.splits)
  have 2: "files (delete_selected ev now s) = files ?s1" by (simp only: d) simp
  have "config_write_ok ev \<longrightarrow> config_file (delete_selected ev now s)
      = Document \<lparr>doc_history = Some (history ?s2), doc_last_update = Some now\<rparr>"
    by (simp only: d) (simp add: save_history_def)
  then have 3: "config_write_ok ev \<longrightarrow>
              config_file (delete_selected ev now s)
                = Document \<lparr>doc_history = Some (history (delete_selected ev now s)),
                            doc_last_update = Some now\<rparr>"
    using 1 by (simp add: h1 split: option.splits)
  from 1 2 3 show ?thesis by blast
qed

text \<open>
  What \<open>delete_selected\<close> does: it removes from the history the first entry that is equal
  as a dictionary to the entry under the cursor, and leaves every other entry as it is and in
  order; that is the entry under the cursor itself whenever the view shows the whole history
  and no earlier entry equals it. For an image entry the two files are removed where removal
  succeeds, no other file is touched, and a removal that fails is passed over; for any other
  entry no file is touched. The shortened history is then saved. Without a cursor, or when the
  entry is no longer in the history, nothing changes. Nothing is ever raised: the function
  always returns a state.
\<close>

lemma delete_selected_effect:
  "(selected_entry s = Some entry \<and> list_ex (\<lambda>x. dict_eq x entry) (history s) \<longrightarrow>
      (\<exists>pre x post. history s = pre @ x # post \<and> dict_eq x entry
          \<and> list_all (\<lambda>y. \<not> dict_eq y entry) pre
          \<and> history (delete_selected ev now s) = pre @ post)
      \<and> (config_write_ok ev \<longrightarrow>
           config_file (delete_selected ev now s)
             = Document \<lparr>doc_history = Some (history (delete_selected ev now s)),
                         doc_last_update = Some now\<rparr>)
      \<and> (get entry ''type'' \<noteq> Some (ascii ''image'') \<longrightarrow>
           files (delete_selected ev now s) = files s)
      \<and> (files (delete_selected ev now s) p = files s p
          \<or> (files (delete_selected ev now s) p = None
              \<and> (get entry ''image_path'' = Some p \<or> get entry ''preview_path'' = Some p)))
      \<and> (get entry ''type'' = Some (ascii ''image'') \<and> p \<noteq> [] \<and> remove_ok ev p
          \<and> (get entry ''image_path'' = Some p \<or> get entry ''preview_path'' = Some p) \<longrightarrow>
           files (delete_selected ev now s) p = None)
      \<and> ((case filtered_history s of None \<Rightarrow> history s | Some f \<Rightarrow> f) = history s
          \<and> list_all (\<lambda>y. \<not> dict_eq y entry) (take (selected_position s) (history s)) \<longrightarrow>
           history (delete_selected ev now s) = remove_at (selected_position s) (history s)))
   \<and> (selected_entry s = None \<longrightarrow> delete_selected ev now s = s)
   \<and> (selected_entry s = Some entry \<and> \<not> list_ex (\<lambda>x. dict_eq x entry) (history s) \<longrightarrow>
        delete_selected ev now s = s)"
proof (intro conjI impI)
  assume a: "selected_entry s = Some entry \<and> list_ex (\<lambda>x. dict_eq x entry) (history s)"
  then have se: "selected_entry s = Some entry"
    and ex: "list_ex (\<lambda>x. dict_eq x entry) (history s)" by simp_all
  note dp = delete_selected_present [OF se ex, of ev now]
  from remove_first_decomp [OF ex] obtain pre x post where
    d: "history s = pre @ x # post" "dict_eq x entry" "list_all (\<lambda>y. \<not> dict_eq y entry) pre"
       "remove_first (\<lambda>x. dict_eq x entry) (history s) = Some (pre @ post)" by blast
  then have "history (delete_selected ev now s) = pre @ post" using dp by simp
  with d show "\<exists>pre x post. history s = pre @ x # post \<and> dict_eq x entry
          \<and> list_all (\<lambda>y. \<not> dict_eq y entry) pre
          \<and> history (delete_selected ev now s) = pre @ post" by blast
  { assume "config_write_ok ev"
    then show "config_file (delete_selected ev now s)
             = Document \<lparr>doc_history = Some (history (delete_selected ev now s)),
                         doc_last_update = Some now\<rparr>" using dp by blast }
  { assume "get entry ''type'' \<noteq> Some (ascii ''image'')"
    then show "files (delete_selected ev now s) = files s" using dp by simp }
  show "files (delete_selected ev now s) p = files s p
          \<or> (files (delete_selected ev now s) p = None
              \<and> (get entry ''image_path'' = Some p \<or> get entry ''preview_path'' = Some p))"
  proof (cases "get entry ''type'' = Some (ascii ''image'')")
    case True
    then have "files (delete_selected ev now s) = files (remove_entry_files ev s entry)"
      using dp by simp
    then show ?thesis using remove_entry_files_cases [of ev s entry p] by simp
  next
    case False
    then show ?thesis using dp by simp
  qed
  { assume b: "get entry ''type'' = Some (ascii ''image'') \<and> p \<noteq> [] \<and> remove_ok ev p
          \<and> (get entry ''image_path'' = Some p \<or> get entry ''preview_path'' = Some p)"
    then have "files (delete_selected ev now s) = files (remove_entry_files ev s entry)"
      using dp by simp
    then show "files (delete_selected ev now s) p = None"
      using b remove_entry_files_image [of entry p ev s]
        remove_entry_files_preview [of entry p ev s] by auto }
  { assume b: "(case filtered_history s of None \<Rightarrow> history s | Some f \<Rightarrow> f) = history s
          \<and> list_all (\<lambda>y. \<not> dict_eq y entry) (take (selected_position s) (history s))"
    from selected_entry_Some [OF se] obtain i where
      i: "cursor s = Some i" "0 \<le> i" "i < int (length (history s))"
         "entry = history s ! (length (history s) - 1 - nat i)"
      using b by auto
    have pos: "selected_position s = length (history s) - 1 - nat i"
      using i(1) by (simp add: selected_position_def)
    have lt: "selected_position s < length (history s)" using i(2,3) pos by simp
    have "remove_first (\<lambda>x. dict_eq x entry) (history s)
        = Some (remove_at (selected_position s) (history s))"
    proof (rule remove_first_at [OF lt])
      show "dict_eq (history s ! selected_position s) entry" using i(4) pos by simp
      show "list_all (\<lambda>y. \<not> dict_eq y entry) (take (selected_position s) (history s))"
        using b by simp
    qed
    then show "history (delete_selected ev now s) = remove_at (selected_position s) (history s)"
      using dp by simp }
next
  assume "selected_entry s = None"
  then show "delete_selected ev now s = s" by (rule selected_entry_None)
next
  assume "selected_entry s = Some entry \<and> \<not> list_ex (\<lambda>x. dict_eq x entry) (history s)"
  then show "delete_selected ev now s = s" by (simp add: delete_selected_absent)
qed

lemma example_aba_state:
  "selected_entry ((example_state 100
         [text_entry (ascii ''A'') (ascii ''t1''), text_entry (ascii ''B'') (ascii ''t2''),
          text_entry (ascii ''A'') (ascii ''t1'')])
       \<lparr>filtered_history := Some [text_entry (ascii ''A'') (ascii ''t1''), text_entry (ascii ''B'') (ascii ''t2''),
          text_entry (ascii ''A'') (ascii ''t1'')],
        history_items := Some (rev [text_entry (ascii ''A'') (ascii ''t1''), text_entry (ascii ''B'') (ascii ''t2''),
          text_entry (ascii ''A'') (ascii ''t1'')]),
        selected_index := Some (Some 0)\<rparr>) = Some (text_entry (ascii ''A'') (ascii ''t1''))
   \<and> selected_position ((example_state 100
         [text_entry (ascii ''A'') (ascii ''t1''), text_entry (ascii ''B'') (ascii ''t2''),
          text_entry (ascii ''A'') (ascii ''t1'')])
       \<lparr>filtered_history := Some [text_entry (ascii ''A'') (ascii ''t1''), text_entry (ascii ''B'') (ascii ''t2''),
          text_entry (ascii ''A'') (ascii ''t1'')],
        history_items := Some (rev [text_entry (ascii ''A'') (ascii ''t1''), text_entry (ascii ''B'') (ascii ''t2''),
          text_entry (ascii ''A'') (ascii ''t1'')]),
        selected_index := Some (Some 0)\<rparr>) = 2
   \<and> history (delete_selected example_env (ascii ''t4'') ((example_state 100
         [text_entry (ascii ''A'') (ascii ''t1''), text_entry (ascii ''B'') (ascii ''t2''),
          text_entry (ascii ''A'') (ascii ''t1'')])
       \<lparr>filtered_history := Some [text_entry (ascii ''A'') (ascii ''t1''), text_entry (ascii ''B'') (ascii ''t2''),
          text_entry (ascii ''A'') (ascii ''t1'')],
        history_items := Some (rev [text_entry (ascii ''A'') (ascii ''t1''), text_entry (ascii ''B'') (ascii ''t2''),
          text_entry (ascii ''A'') (ascii ''t1'')]),
        selected_index := Some (Some 0)\<rparr>)) = [text_entry (ascii ''B'') (ascii ''t2''),
          text_entry (ascii ''A'') (ascii ''t1'')]"
  by (simp add: selected_entry_def selected_position_def cursor_def delete_selected_def
      example_state_def new_state_def save_history_def update_history_list_def
      example_env_def dict_eq_def text_entry_def ascii_def Let_def)

lemma delete_selected_effect_example:
  "selected_entry ((example_state 100
         [text_entry (ascii ''A'') (ascii ''t1''), text_entry (ascii ''B'') (ascii ''t2''),
          text_entry (ascii ''A'') (ascii ''t1'')])
       \<lparr>filtered_history := Some [text_entry (ascii ''A'') (ascii ''t1''), text_entry (ascii ''B'') (ascii ''t2''),
          text_entry (ascii ''A'') (ascii ''t1'')],
        history_items := Some (rev [text_entry (ascii ''A'') (ascii ''t1''), text_entry (ascii ''B'') (ascii ''t2''),
          text_entry (ascii ''A'') (ascii ''t1'')]),
        selected_index := Some (Some 0)\<rparr>) = Some (text_entry (ascii ''A'') (ascii ''t1''))
   \<and> list_ex (\<lambda>x. dict_eq x (text_entry (ascii ''A'') (ascii ''t1''))) (history ((example_state 100
         [text_entry (ascii ''A'') (ascii ''t1''), text_entry (ascii ''B'') (ascii ''t2''),
          text_entry (ascii ''A'') (ascii ''t1'')])
       \<lparr>filtered_history := Some [text_entry (ascii ''A'') (ascii ''t1''), text_entry (ascii ''B'') (ascii ''t2''),
          text_entry (ascii ''A'') (ascii ''t1'')],
        history_items := Some (rev [text_entry (ascii ''A'') (ascii ''t1''), text_entry (ascii ''B'') (ascii ''t2''),
          text_entry (ascii ''A'') (ascii ''t1'')]),
        selected_index := Some (Some 0)\<rparr>))
   \<and> config_write_ok example_env
   \<and> config_file (delete_selected example_env (ascii ''t4'') ((example_state 100
         [text_entry (ascii ''A'') (ascii ''t1''), text_entry (ascii ''B'') (ascii ''t2''),
          text_entry (ascii ''A'') (ascii ''t1'')])
       \<lparr>filtered_history := Some [text_entry (ascii ''A'') (ascii ''t1''), text_entry (ascii ''B'') (ascii ''t2''),
          text_entry (ascii ''A'') (ascii ''t1'')],
        history_items := Some (rev [text_entry (ascii ''A'') (ascii ''t1''), text_entry (ascii ''B'') (ascii ''t2''),
          text_entry (ascii ''A'') (ascii ''t1'')]),
        selected_index := Some (Some 0)\<rparr>))
       = Document \<lparr>doc_history = Some [text_entry (ascii ''B'') (ascii ''t2''),
          text_entry (ascii ''A'') (ascii ''t1'')], doc_last_update = Some (ascii ''t4'')\<rparr>
   \<and> files (delete_selected example_env (ascii ''t4'') ((example_state 100
         [text_entry (ascii ''A'') (ascii ''t1''), text_entry (ascii ''B'') (ascii ''t2''),
          text_entry (ascii ''A'') (ascii ''t1'')])
       \<lparr>filtered_history := Some [text_entry (ascii ''A'') (ascii ''t1''), text_entry (ascii ''B'') (ascii ''t2''),
          text_entry (ascii ''A'') (ascii ''t1'')],
        history_items := Some (rev [text_entry (ascii ''A'') (ascii ''t1''), text_entry (ascii ''B'') (ascii ''t2''),
          text_entry (ascii ''A'') (ascii ''t1'')]),
        selected_index := Some (Some 0)\<rparr>)) = files ((example_state 100
         [text_entry (ascii ''A'') (ascii ''t1''), text_entry (ascii ''B'') (ascii ''t2''),
          text_entry (ascii ''A'') (ascii ''t1'')])
       \<lparr>filtered_history := Some [text_entry (ascii ''A'') (ascii ''t1''), text_entry (ascii ''B'') (ascii ''t2''),
          text_entry (ascii ''A'') (ascii ''t1'')],
        history_items := Some (rev [text_entry (ascii ''A'') (ascii ''t1''), text_entry (ascii ''B'') (ascii ''t2''),
          text_entry (ascii ''A'') (ascii ''t1'')]),
        selected_index := Some (Some 0)\<rparr>)"
proof -
  have 1: "selected_entry ((example_state 100
         [text_entry (ascii ''A'') (ascii ''t1''), text_entry (ascii ''B'') (ascii ''t2''),
          text_entry (ascii ''A'') (ascii ''t1'')])
       \<lparr>filtered_history := Some [text_entry (ascii ''A'') (ascii ''t1''), text_entry (ascii ''B'') (ascii ''t2''),
          text_entry (ascii ''A'') (ascii ''t1'')],
        history_items := Some (rev [text_entry (ascii ''A'') (ascii ''t1''), text_entry (ascii ''B'') (ascii ''t2''),
          text_entry (ascii ''A'') (ascii ''t1'')]),
        selected_index := Some (Some 0)\<rparr>) = Some (text_entry (ascii ''A'') (ascii ''t1''))" using example_aba_state by blast
  have 2: "list_ex (\<lambda>x. dict_eq x (text_entry (ascii ''A'') (ascii ''t1''))) (history ((example_state 100
         [text_entry (ascii ''A'') (ascii ''t1''), text_entry (ascii ''B'') (ascii ''t2''),
          text_entry (ascii ''A'') (ascii ''t1'')])
       \<lparr>filtered_history := Some [text_entry (ascii ''A'') (ascii ''t1''), text_entry (ascii ''B'') (ascii ''t2''),
          text_entry (ascii ''A'') (ascii ''t1'')],
        history_items := Some (rev [text_entry (ascii ''A'') (ascii ''t1''), text_entry (ascii ''B'') (ascii ''t2''),
          text_entry (ascii ''A'') (ascii ''t1'')]),
        selected_index := Some (Some 0)\<rparr>))"
    by (simp add: example_state_def new_state_def)
  have 3: "config_write_ok example_env" by (simp add: example_env_def)
  have 4: "get (text_entry (ascii ''A'') (ascii ''t1'')) ''type'' \<noteq> Some (ascii ''image'')" by (simp add: ascii_def)
  have 5: "history (delete_selected example_env (ascii ''t4'') ((example_state 100
         [text_entry (ascii ''A'') (ascii ''t1''), text_entry (ascii ''B'') (ascii ''t2''),
          text_entry (ascii ''A'') (ascii ''t1'')])
       \<lparr>filtered_history := Some [text_entry (ascii ''A'') (ascii ''t1''), text_entry (ascii ''B'') (ascii ''t2''),
          text_entry (ascii ''A'') (ascii ''t1'')],
        history_items := Some (rev [text_entry (ascii ''A'') (ascii ''t1''), text_entry (ascii ''B'') (ascii ''t2''),
          text_entry (ascii ''A'') (ascii ''t1'')]),
        selected_index := Some (Some 0)\<rparr>)) = [text_entry (ascii ''B'') (ascii ''t2''),
          text_entry (ascii ''A'') (ascii ''t1'')]"
    using example_aba_state by blast
  from 1 2 3 4 delete_selected_effect [of "((example_state 100
         [text_entry (ascii ''A'') (ascii ''t1''), text_entry (ascii ''B'') (ascii ''t2''),
          text_entry (ascii ''A'') (ascii ''t1'')])
       \<lparr>filtered_history := Some [text_entry (ascii ''A'') (ascii ''t1''), text_entry (ascii ''B'') (ascii ''t2''),
          text_entry (ascii ''A'') (ascii ''t1'')],
        history_items := Some (rev [text_entry (ascii ''A'') (ascii ''t1''), text_entry (ascii ''B'') (ascii ''t2''),
          text_entry (ascii ''A'') (ascii ''t1'')]),
        selected_index := Some (Some 0)\<rparr>)" "text_entry (ascii ''A'') (ascii ''t1'')" example_env "ascii ''t4''"]
  have "config_file (delete_selected example_env (ascii ''t4'') ((example_state 100
         [text_entry (ascii ''A'') (ascii ''t1''), text_entry (ascii ''B'') (ascii ''t2''),
          text_entry (ascii ''A'') (ascii ''t1'')])
       \<lparr>filtered_history := Some [text_entry (ascii ''A'') (ascii ''t1''), text_entry (ascii ''B'') (ascii ''t2''),
          text_entry (ascii ''A'') (ascii ''t1'')],
        history_items := Some (rev [text_entry (ascii ''A'') (ascii ''t1''), text_entry (ascii ''B'') (ascii ''t2''),
          text_entry (ascii ''A'') (ascii ''t1'')]),
        selected_index := Some (Some 0)\<rparr>))
        = Document \<lparr>doc_history = Some (history (delete_selected example_env (ascii ''t4'') ((example_state 100
         [text_entry (ascii ''A'') (ascii ''t1''), text_entry (ascii ''B'') (ascii ''t2''),
          text_entry (ascii ''A'') (ascii ''t1'')])
       \<lparr>filtered_history := Some [text_entry (ascii ''A'') (ascii ''t1''), text_entry (ascii ''B'') (ascii ''t2''),
          text_entry (ascii ''A'') (ascii ''t1'')],
        history_items := Some (rev [text_entry (ascii ''A'') (ascii ''t1''), text_entry (ascii ''B'') (ascii ''t2''),
          text_entry (ascii ''A'') (ascii ''t1'')]),
        selected_index := Some (Some 0)\<rparr>))),
                    doc_last_update = Some (ascii ''t4'')\<rparr>
      \<and> files (delete_selected example_env (ascii ''t4'') ((example_state 100
         [text_entry (ascii ''A'') (ascii ''t1''), text_entry (ascii ''B'') (ascii ''t2''),
          text_entry (ascii ''A'') (ascii ''t1'')])
       \<lparr>filtered_history := Some [text_entry (ascii ''A'') (ascii ''t1''), text_entry (ascii ''B'') (ascii ''t2''),
          text_entry (ascii ''A'') (ascii ''t1'')],
        history_items := Some (rev [text_entry (ascii ''A'') (ascii ''t1''), text_entry (ascii ''B'') (ascii ''t2''),
          text_entry (ascii ''A'') (ascii ''t1'')]),
        selected_index := Some (Some 0)\<rparr>)) = files ((example_state 100
         [text_entry (ascii ''A'') (ascii ''t1''), text_entry (ascii ''B'') (ascii ''t2''),
          text_entry (ascii ''A'') (ascii ''t1'')])
       \<lparr>filtered_history := Some [text_entry (ascii ''A'') (ascii ''t1''), text_entry (ascii ''B'') (ascii ''t2''),
          text_entry (ascii ''A'') (ascii ''t1'')],
        history_items := Some (rev [text_entry (ascii ''A'') (ascii ''t1''), text_entry (ascii ''B'') (ascii ''t2''),
          text_entry (ascii ''A'') (ascii ''t1'')]),
        selected_index := Some (Some 0)\<rparr>)"
    by blast
  then show ?thesis using 1 2 3 5 by simp
qed

text \<open>
  C9: deleting is to remove the entry under the cursor and no other. On the history A, B, A
  whose two A records are equal in every field, with the whole history in view and the cursor
  on the newest entry (position 2 of the history), \<open>delete_selected\<close> removes the oldest
  entry instead: it leaves B, A, where removing the selected entry leaves A, B. Where no
  earlier entry equals the selected one, \<open>delete_selected\<close> does remove the entry under
  the cursor, as \<open>delete_selected_effect\<close> shows.
\<close>

theorem delete_selected_removes_other_entry:
  "history ((example_state 100
         [text_entry (ascii ''A'') (ascii ''t1''), text_entry (ascii ''B'') (ascii ''t2''),
          text_entry (ascii ''A'') (ascii ''t1'')])
       \<lparr>filtered_history := Some [text_entry (ascii ''A'') (ascii ''t1''), text_entry (ascii ''B'') (ascii ''t2''),
          text_entry (ascii ''A'') (ascii ''t1'')],
        history_items := Some (rev [text_entry (ascii ''A'') (ascii ''t1''), text_entry (ascii ''B'') (ascii ''t2''),
          text_entry (ascii ''A'') (ascii ''t1'')]),
        selected_index := Some (Some 0)\<rparr>) = [text_entry (ascii ''A'') (ascii ''t1''), text_entry (ascii ''B'') (ascii ''t2''),
          text_entry (ascii ''A'') (ascii ''t1'')]
   \<and> selected_entry ((example_state 100
         [text_entry (ascii ''A'') (ascii ''t1''), text_entry (ascii ''B'') (ascii ''t2''),
          text_entry (ascii ''A'') (ascii ''t1'')])
       \<lparr>filtered_history := Some [text_entry (ascii ''A'') (ascii ''t1''), text_entry (ascii ''B'') (ascii ''t2''),
          text_entry (ascii ''A'') (ascii ''t1'')],
        history_items := Some (rev [text_entry (ascii ''A'') (ascii ''t1''), text_entry (ascii ''B'') (ascii ''t2''),
          text_entry (ascii ''A'') (ascii ''t1'')]),
        selected_index := Some (Some 0)\<rparr>) = Some (text_entry (ascii ''A'') (ascii ''t1''))
   \<and> selected_position ((example_state 100
         [text_entry (ascii ''A'') (ascii ''t1''), text_entry (ascii ''B'') (ascii ''t2''),
          text_entry (ascii ''A'') (ascii ''t1'')])
       \<lparr>filtered_history := Some [text_entry (ascii ''A'') (ascii ''t1''), text_entry (ascii ''B'') (ascii ''t2''),
          text_entry (ascii ''A'') (ascii ''t1'')],
        history_items := Some (rev [text_entry (ascii ''A'') (ascii ''t1''), text_entry (ascii ''B'') (ascii ''t2''),
          text_entry (ascii ''A'') (ascii ''t1'')]),
        selected_index := Some (Some 0)\<rparr>) = 2
   \<and> remove_at 2 (history ((example_state 100
         [text_entry (ascii ''A'') (ascii ''t1''), text_entry (ascii ''B'') (ascii ''t2''),
          text_entry (ascii ''A'') (ascii ''t1'')])
       \<lparr>filtered_history := Some [text_entry (ascii ''A'') (ascii ''t1''), text_entry (ascii ''B'') (ascii ''t2''),
          text_entry (ascii ''A'') (ascii ''t1'')],
        history_items := Some (rev [text_entry (ascii ''A'') (ascii ''t1''), text_entry (ascii ''B'') (ascii ''t2''),
          text_entry (ascii ''A'') (ascii ''t1'')]),
        selected_index := Some (Some 0)\<rparr>)) = [text_entry (ascii ''A'') (ascii ''t1''),
          text_entry (ascii ''B'') (ascii ''t2'')]
   \<and> history (delete_selected example_env (ascii ''t4'') ((example_state 100
         [text_entry (ascii ''A'') (ascii ''t1''), text_entry (ascii ''B'') (ascii ''t2''),
          text_entry (ascii ''A'') (ascii ''t1'')])
       \<lparr>filtered_history := Some [text_entry (ascii ''A'') (ascii ''t1''), text_entry (ascii ''B'') (ascii ''t2''),
          text_entry (ascii ''A'') (ascii ''t1'')],
        history_items := Some (rev [text_entry (ascii ''A'') (ascii ''t1''), text_entry (ascii ''B'') (ascii ''t2''),
          text_entry (ascii ''A'') (ascii ''t1'')]),
        selected_index := Some (Some 0)\<rparr>)) = [text_entry (ascii ''B'') (ascii ''t2''),
          text_entry (ascii ''A'') (ascii ''t1'')]
   \<and> history (delete_selected example_env (ascii ''t4'') ((example_state 100
         [text_entry (ascii ''A'') (ascii ''t1''), text_entry (ascii ''B'') (ascii ''t2''),
          text_entry (ascii ''A'') (ascii ''t1'')])
       \<lparr>filtered_history := Some [text_entry (ascii ''A'') (ascii ''t1''), text_entry (ascii ''B'') (ascii ''t2''),
          text_entry (ascii ''A'') (ascii ''t1'')],
        history_items := Some (rev [text_entry (ascii ''A'') (ascii ''t1''), text_entry (ascii ''B'') (ascii ''t2''),
          text_entry (ascii ''A'') (ascii ''t1'')]),
        selected_index := Some (Some 0)\<rparr>))
       \<noteq> remove_at (selected_position ((example_state 100
         [text_entry (ascii ''A'') (ascii ''t1''), text_entry (ascii ''B'') (ascii ''t2''),
          text_entry (ascii ''A'') (ascii ''t1'')])
       \<lparr>filtered_history := Some [text_entry (ascii ''A'') (ascii ''t1''), text_entry (ascii ''B'') (ascii ''t2''),
          text_entry (ascii ''A'') (ascii ''t1'')],
        history_items := Some (rev [text_entry (ascii ''A'') (ascii ''t1''), text_entry (ascii ''B'') (ascii ''t2''),
          text_entry (ascii ''A'') (ascii ''t1'')]),
        selected_index := Some (Some 0)\<rparr>)) (history ((example_state 100
         [text_entry (ascii ''A'') (ascii ''t1''), text_entry (ascii ''B'') (ascii ''t2''),
          text_entry (ascii ''A'') (ascii ''t1'')])
       \<lparr>filtered_history := Some [text_entry (ascii ''A'') (ascii ''t1''), text_entry (ascii ''B'') (ascii ''t2''),
          text_entry (ascii ''A'') (ascii ''t1'')],
        history_items := Some (rev [text_entry (ascii ''A'') (ascii ''t1''), text_entry (ascii ''B'') (ascii ''t2''),
          text_entry (ascii ''A'') (ascii ''t1'')]),
        selected_index := Some (Some 0)\<rparr>))"
proof -
  have 1: "history ((example_state 100
         [text_entry (ascii ''A'') (ascii ''t1''), text_entry (ascii ''B'') (ascii ''t2''),
          text_entry (ascii ''A'') (ascii ''t1'')])
       \<lparr>filtered_history := Some [text_entry (ascii ''A'') (ascii ''t1''), text_entry (ascii ''B'') (ascii ''t2''),
          text_entry (ascii ''A'') (ascii ''t1'')],
        history_items := Some (rev [text_entry (ascii ''A'') (ascii ''t1''), text_entry (ascii ''B'') (ascii ''t2''),
          text_entry (ascii ''A'') (ascii ''t1'')]),
        selected_index := Some (Some 0)\<rparr>) = [text_entry (ascii ''A'') (ascii ''t1''), text_entry (ascii ''B'') (ascii ''t2''),
          text_entry (ascii ''A'') (ascii ''t1'')]" by (simp add: example_state_def new_state_def)
  have 2: "remove_at 2 (history ((example_state 100
         [text_entry (ascii ''A'') (ascii ''t1''), text_entry (ascii ''B'') (ascii ''t2''),
          text_entry (ascii ''A'') (ascii ''t1'')])
       \<lparr>filtered_history := Some [text_entry (ascii ''A'') (ascii ''t1''), text_entry (ascii ''B'') (ascii ''t2''),
          text_entry (ascii ''A'') (ascii ''t1'')],
        history_items := Some (rev [text_entry (ascii ''A'') (ascii ''t1''), text_entry (ascii ''B'') (ascii ''t2''),
          text_entry (ascii ''A'') (ascii ''t1'')]),
        selected_index := Some (Some 0)\<rparr>)) = [text_entry (ascii ''A'') (ascii ''t1''),
          text_entry (ascii ''B'') (ascii ''t2'')]"
    by (simp add: remove_at_def example_state_def new_state_def numeral_2_eq_2 numeral_3_eq_3)
  have 3: "[text_entry (ascii ''B'') (ascii ''t2''),
          text_entry (ascii ''A'') (ascii ''t1'')] \<noteq> [text_entry (ascii ''A'') (ascii ''t1''),
          text_entry (ascii ''B'') (ascii ''t2'')]" by (simp add: text_entry_def ascii_def)
  show ?thesis using 1 2 3 example_aba_state by simp
qed

end
